theory Spec2Isabelle
  imports Complex_Main "HOL-Library.Sublist"
begin

section \<open>JavaScript strings\<close>

text \<open>
  A JavaScript string is a sequence of UTF-16 code units.  A code unit is modelled as a
  natural number (below 65536 for every string the engine reads); \<open>js\<close> turns an
  ASCII literal of the source into that representation.
\<close>

type_synonym jschar = nat
type_synonym jstring = "jschar list"

definition js :: "string \<Rightarrow> jstring" where
  "js s = map of_char s"

text \<open>The character class \<^verbatim>\<open>\s\<close> of an ECMAScript regular expression:
  tab, line feed, vertical tab, form feed, carriage return, space, no-break space, the
  Unicode space separators, the line and paragraph separators and the byte order mark.\<close>

definition isSpace :: "jschar \<Rightarrow> bool" where
  "isSpace c \<longleftrightarrow>
     (9 \<le> c \<and> c \<le> 13) \<or> c = 32 \<or> c = 160 \<or> c = 5760 \<or> (8192 \<le> c \<and> c \<le> 8202)
     \<or> c = 8232 \<or> c = 8233 \<or> c = 8239 \<or> c = 8287 \<or> c = 12288 \<or> c = 65279"

text \<open>\<^verbatim>\<open>\d\<close>: the ASCII digits only.\<close>

definition isDigit :: "jschar \<Rightarrow> bool" where
  "isDigit c \<longleftrightarrow> 48 \<le> c \<and> c \<le> 57"

fun startsWith :: "jstring \<Rightarrow> jstring \<Rightarrow> bool" where
  "startsWith s [] = True"
| "startsWith [] (p # ps) = False"
| "startsWith (c # cs) (p # ps) = (c = p \<and> startsWith cs ps)"

text \<open>\<^verbatim>\<open>s.indexOf(pat)\<close>: the first index at which \<open>pat\<close> occurs; \<open>None\<close> stands
  for the result -1.\<close>

fun indexOf :: "jstring \<Rightarrow> jstring \<Rightarrow> nat option" where
  "indexOf [] pat = (if pat = [] then Some 0 else None)"
| "indexOf (c # cs) pat =
     (if startsWith (c # cs) pat then Some 0 else map_option Suc (indexOf cs pat))"

text \<open>\<^verbatim>\<open>s.slice(a, b)\<close> for indices \<open>0 \<le> a\<close>, \<open>0 \<le> b\<close>.\<close>

definition slice :: "jstring \<Rightarrow> nat \<Rightarrow> nat \<Rightarrow> jstring" where
  "slice s a b = take (b - a) (drop a s)"

section \<open>Numbers\<close>

text \<open>
  A JavaScript number is an IEEE 754 double: a finite value, \<^verbatim>\<open>NaN\<close>, or an infinity.  A
  finite double is modelled as the rational it denotes (the two signed zeros are the one
  rational zero: the engine never divides by a number it has read, and every other
  operation it uses treats the two alike).  An operation computes the exact result and
  \<open>roundDouble\<close> rounds it to the nearest double, a tie going to the even significand;
  a result of magnitude \<open>2^1024\<close> or more is an infinity.
\<close>

datatype jsnumber = Finite rat | NaN | PosInf | NegInf

text \<open>The number of binary digits of a natural number.\<close>

fun bitLength :: "nat \<Rightarrow> nat" where
  "bitLength n = (if n = 0 then 0 else Suc (bitLength (n div 2)))"

declare bitLength.simps [simp del]

definition pow2 :: "int \<Rightarrow> rat" where
  "pow2 k = (if 0 \<le> k then 2 ^ nat k else 1 / 2 ^ nat (- k))"

text \<open>The binary exponent of a positive rational \<open>a\<close>: the \<open>e\<close> with
  \<open>2^e \<le> a < 2^(e+1)\<close>.\<close>

definition ilog2 :: "rat \<Rightarrow> int" where
  "ilog2 a =
     (if 1 \<le> a then int (bitLength (nat \<lfloor>a\<rfloor>)) - 1
      else - int (bitLength (nat (\<lceil>1 / a\<rceil> - 1))))"

definition roundHalfEven :: "rat \<Rightarrow> int" where
  "roundHalfEven q =
     (let f = \<lfloor>q\<rfloor>; d = q - of_int f
      in if d < 1 / 2 then f else if 1 / 2 < d then f + 1 else if even f then f else f + 1)"

text \<open>
  The doubles next to \<open>a\<close> are the multiples of \<open>2^(e - 52)\<close>, where \<open>e\<close> is the binary
  exponent of \<open>a\<close>, and of \<open>2^(-1074)\<close> in the subnormal range.
\<close>

definition roundDouble :: "rat \<Rightarrow> jsnumber" where
  "roundDouble r =
     (if r = 0 then Finite 0
      else
        let a = \<bar>r\<bar>;
            ulp = pow2 (max (ilog2 a) (- 1022) - 52);
            v = of_int (roundHalfEven (a / ulp)) * ulp
        in if pow2 1024 \<le> v then (if r < 0 then NegInf else PosInf)
           else Finite (if r < 0 then - v else v))"

subsection \<open>Arithmetic\<close>

fun numNeg :: "jsnumber \<Rightarrow> jsnumber" where
  "numNeg (Finite r) = Finite (- r)"
| "numNeg NaN = NaN"
| "numNeg PosInf = NegInf"
| "numNeg NegInf = PosInf"

text \<open>\<^verbatim>\<open>x + y\<close> on numbers.\<close>

fun numAdd :: "jsnumber \<Rightarrow> jsnumber \<Rightarrow> jsnumber" where
  "numAdd (Finite a) (Finite b) = roundDouble (a + b)"
| "numAdd (Finite a) y = y"
| "numAdd NaN y = NaN"
| "numAdd PosInf NaN = NaN"
| "numAdd PosInf NegInf = NaN"
| "numAdd PosInf y = PosInf"
| "numAdd NegInf NaN = NaN"
| "numAdd NegInf PosInf = NaN"
| "numAdd NegInf y = NegInf"

text \<open>\<^verbatim>\<open>x * c\<close> and \<^verbatim>\<open>x / c\<close> for a positive constant \<open>c\<close> of the source.\<close>

fun numTimes :: "jsnumber \<Rightarrow> rat \<Rightarrow> jsnumber" where
  "numTimes (Finite a) c = roundDouble (a * c)"
| "numTimes x c = x"

fun numDividedBy :: "jsnumber \<Rightarrow> rat \<Rightarrow> jsnumber" where
  "numDividedBy (Finite a) c = roundDouble (a / c)"
| "numDividedBy x c = x"

text \<open>\<^verbatim>\<open>Math.abs(x)\<close>, \<^verbatim>\<open>Math.floor(x)\<close> and \<^verbatim>\<open>x % c\<close> for a positive constant \<open>c\<close>; the
  remainder of a finite number is exact and takes the sign of \<open>x\<close>.\<close>

fun numAbs :: "jsnumber \<Rightarrow> jsnumber" where
  "numAbs (Finite r) = Finite \<bar>r\<bar>"
| "numAbs NaN = NaN"
| "numAbs x = PosInf"

fun numFloor :: "jsnumber \<Rightarrow> jsnumber" where
  "numFloor (Finite r) = Finite (of_int \<lfloor>r\<rfloor>)"
| "numFloor x = x"

text \<open>\<^verbatim>\<open>ToIntegerOrInfinity\<close> on a finite number: truncation towards zero.\<close>

definition truncRat :: "rat \<Rightarrow> int" where
  "truncRat r = (if 0 \<le> r then \<lfloor>r\<rfloor> else \<lceil>r\<rceil>)"

fun numRem :: "jsnumber \<Rightarrow> rat \<Rightarrow> jsnumber" where
  "numRem (Finite r) c = Finite (r - c * of_int (truncRat (r / c)))"
| "numRem x c = NaN"

text \<open>A number under \<^verbatim>\<open>if (x)\<close> and \<^verbatim>\<open>x || y\<close>: zero and \<^verbatim>\<open>NaN\<close> are falsy.\<close>

definition numTruthy :: "jsnumber \<Rightarrow> bool" where
  "numTruthy n \<longleftrightarrow> n \<noteq> Finite 0 \<and> n \<noteq> NaN"

subsection \<open>Conversion to string\<close>

text \<open>Decimal digits of a natural number, of an integer.\<close>

fun natDigits :: "nat \<Rightarrow> jstring" where
  "natDigits n = (if n < 10 then [48 + n] else natDigits (n div 10) @ [48 + n mod 10])"

declare natDigits.simps [simp del]

definition intDigits :: "int \<Rightarrow> jstring" where
  "intDigits i = (if i < 0 then 45 # natDigits (nat (- i)) else natDigits (nat i))"

definition pow10 :: "int \<Rightarrow> rat" where
  "pow10 k = (if 0 \<le> k then 10 ^ nat k else 1 / 10 ^ nat (- k))"

text \<open>The decimal exponent of a positive rational \<open>a\<close>: the \<open>e\<close> with
  \<open>10^e \<le> a < 10^(e+1)\<close>.\<close>

definition ilog10 :: "rat \<Rightarrow> int" where
  "ilog10 a =
     (if 1 \<le> a then int (length (natDigits (nat \<lfloor>a\<rfloor>))) - 1
      else - int (length (natDigits (nat (\<lceil>1 / a\<rceil> - 1)))))"

text \<open>
  \<^verbatim>\<open>Number.prototype.toString\<close> writes a finite double \<open>x\<close> with the fewest significant
  digits that still denote \<open>x\<close>: integers \<open>n\<close>, \<open>k\<close> and \<open>s\<close> with \<open>k\<close> as small as
  possible such that \<open>s\<close> has \<open>k\<close> digits and \<open>s * 10^(n - k)\<close> rounds to \<open>x\<close>; among
  several such \<open>s\<close> the one whose decimal is closest to \<open>x\<close>, the even one in a tie.
  For \<open>10^(n - 1) \<le> x < 10^n\<close> the candidates with \<open>k\<close> digits are the two multiples of
  \<open>10^(n - k)\<close> around \<open>x\<close>.  Seventeen digits tell any two doubles apart.
\<close>

definition digitsFor :: "rat \<Rightarrow> int \<Rightarrow> nat \<Rightarrow> int option" where
  "digitsFor x n k =
     (let u = pow10 (n - int k);
          lo = \<lfloor>x / u\<rfloor>;
          hi = lo + 1;
          okLo = (roundDouble (of_int lo * u) = Finite x);
          okHi = (roundDouble (of_int hi * u) = Finite x);
          dLo = x - of_int lo * u;
          dHi = of_int hi * u - x
      in if okLo \<and> okHi then
           (if dLo < dHi then Some lo else if dHi < dLo then Some hi
            else if even lo then Some lo else Some hi)
         else if okLo then Some lo
         else if okHi then Some hi
         else None)"

function shortestDigits :: "nat \<Rightarrow> rat \<Rightarrow> int \<Rightarrow> int \<times> nat" where
  "shortestDigits k x n =
     (if 17 < k then (\<lfloor>x / pow10 (n - int k)\<rfloor>, k)
      else (case digitsFor x n k of
              Some s \<Rightarrow> (s, k)
            | None \<Rightarrow> shortestDigits (k + 1) x n))"
  by pat_completeness auto
termination
  by (relation "measure (\<lambda>(k, x, n). 18 - k)") auto

declare shortestDigits.simps [simp del]

definition zeros :: "nat \<Rightarrow> jstring" where
  "zeros n = replicate n 48"

definition stripZeros :: "jstring \<Rightarrow> jstring" where
  "stripZeros ds = rev (dropWhile (\<lambda>c. c = 48) (rev ds))"

text \<open>The digits \<open>ds\<close> of \<open>s\<close> and the \<open>n\<close> with \<open>x = 0.ds * 10^n\<close>: positional notation
  for \<open>-5 \<le> n \<le> 21\<close>, exponent notation otherwise.\<close>

definition formatDigits :: "jstring \<Rightarrow> int \<Rightarrow> jstring" where
  "formatDigits ds n =
     (let k = int (length ds) in
      if - 5 \<le> n \<and> n \<le> 21 then
        (if k \<le> n then ds @ zeros (nat (n - k))
         else if 0 < n then take (nat n) ds @ [46] @ drop (nat n) ds
         else [48, 46] @ zeros (nat (- n)) @ ds)
      else
        (if k = 1 then ds else [hd ds] @ [46] @ tl ds)
        @ [101] @ (if n - 1 < 0 then [45] else [43]) @ natDigits (nat \<bar>n - 1\<bar>))"

definition positiveToString :: "rat \<Rightarrow> jstring" where
  "positiveToString x =
     (let n0 = ilog10 x + 1 in
      case shortestDigits 1 x n0 of
        (s, k) \<Rightarrow>
          formatDigits (stripZeros (natDigits (nat s)))
            (n0 - int k + int (length (natDigits (nat s)))))"

definition numToString :: "rat \<Rightarrow> jstring" where
  "numToString r =
     (if r = 0 then [48]
      else if r < 0 then 45 # positiveToString (- r)
      else positiveToString r)"

definition numStr :: "jsnumber \<Rightarrow> jstring" where
  "numStr n =
     (case n of
        Finite r \<Rightarrow> numToString r
      | NaN \<Rightarrow> js ''NaN''
      | PosInf \<Rightarrow> js ''Infinity''
      | NegInf \<Rightarrow> js ''-Infinity'')"

section \<open>JavaScript values\<close>

text \<open>
  The values the engine handles are the values of JSON texts: \<^verbatim>\<open>null\<close>, booleans,
  numbers, strings, arrays and objects.  An object is the list of its own properties in
  the order in which \<^verbatim>\<open>Object.keys\<close> and \<^verbatim>\<open>JSON.stringify\<close> enumerate them.  A property
  that is absent (\<^verbatim>\<open>undefined\<close>) is \<open>None\<close>.
\<close>

datatype jsval =
    JNull
  | JBool bool
  | JNum jsnumber
  | JStr jstring
  | JArr "jsval list"
  | JObj "(jstring \<times> jsval) list"

type_synonym props = "(jstring \<times> jsval) list"

datatype js_error = TypeError jstring | RangeError jstring

fun errorMessage :: "js_error \<Rightarrow> jstring" where
  "errorMessage (TypeError m) = m"
| "errorMessage (RangeError m) = m"

text \<open>Truthiness, as \<^verbatim>\<open>if (x)\<close>, \<^verbatim>\<open>!x\<close>, \<^verbatim>\<open>x || y\<close> and \<^verbatim>\<open>x && y\<close> test it.\<close>

fun truthy :: "jsval \<Rightarrow> bool" where
  "truthy JNull = False"
| "truthy (JBool b) = b"
| "truthy (JNum n) = numTruthy n"
| "truthy (JStr s) = (s \<noteq> [])"
| "truthy (JArr xs) = True"
| "truthy (JObj ps) = True"

definition truthyOpt :: "jsval option \<Rightarrow> bool" where
  "truthyOpt x = (case x of None \<Rightarrow> False | Some v \<Rightarrow> truthy v)"

text \<open>\<^verbatim>\<open>a || b\<close> on possibly absent values.\<close>

definition orElse :: "jsval option \<Rightarrow> jsval option \<Rightarrow> jsval option" where
  "orElse a b = (if truthyOpt a then a else b)"

text \<open>
  Reading a property \<^verbatim>\<open>x.name\<close> for one of the names the engine reads (\<^verbatim>\<open>data\<close>,
  \<^verbatim>\<open>meta\<close>, \<^verbatim>\<open>fileCreated\<close>, \<^verbatim>\<open>lastUpdateStatus\<close>, \<^verbatim>\<open>attempt\<close>, \<^verbatim>\<open>source\<close>,
  \<^verbatim>\<open>upstream\<close>, \<^verbatim>\<open>date\<close>, \<^verbatim>\<open>day\<close>, \<^verbatim>\<open>d\<close>, \<^verbatim>\<open>start\<close>, \<^verbatim>\<open>from\<close>, \<^verbatim>\<open>begin\<close>, \<^verbatim>\<open>s\<close>,
  \<^verbatim>\<open>end\<close>, \<^verbatim>\<open>to\<close>, \<^verbatim>\<open>finish\<close>, \<^verbatim>\<open>e\<close>): an object yields its own property, and none of
  these names is a property of a string, a number, a boolean, an array or of
  \<^verbatim>\<open>Object.prototype\<close>, so every other value yields \<^verbatim>\<open>undefined\<close>.  (Reading a property of
  \<^verbatim>\<open>null\<close> throws; the engine guards each such read with a truthiness test.)
\<close>

fun getProp :: "jsval \<Rightarrow> jstring \<Rightarrow> jsval option" where
  "getProp (JObj ps) k = map_of ps k"
| "getProp v k = None"

definition getPropOpt :: "jsval option \<Rightarrow> jstring \<Rightarrow> jsval option" where
  "getPropOpt x k = (case x of None \<Rightarrow> None | Some v \<Rightarrow> getProp v k)"

text \<open>
  Property order.  An object lists its array-index keys (canonical decimal numerals
  below \<open>2^32 - 1\<close>) first, in ascending numeric order, then its other keys in the order
  of their creation; assigning to an existing property keeps its place.
\<close>

fun digitsValue :: "jstring \<Rightarrow> nat \<Rightarrow> nat" where
  "digitsValue [] acc = acc"
| "digitsValue (c # cs) acc = digitsValue cs (10 * acc + (c - 48))"

definition isArrayIndex :: "jstring \<Rightarrow> bool" where
  "isArrayIndex k \<longleftrightarrow>
     k \<noteq> [] \<and> list_all isDigit k \<and> (k = [48] \<or> hd k \<noteq> 48) \<and> digitsValue k 0 < 4294967295"

fun insertIndex :: "jstring \<Rightarrow> jsval \<Rightarrow> props \<Rightarrow> props" where
  "insertIndex k v [] = [(k, v)]"
| "insertIndex k v ((k', v') # ps) =
     (if isArrayIndex k' \<and> digitsValue k' 0 < digitsValue k 0 then (k', v') # insertIndex k v ps
      else (k, v) # (k', v') # ps)"

fun replaceProp :: "jstring \<Rightarrow> jsval \<Rightarrow> props \<Rightarrow> props" where
  "replaceProp k v [] = []"
| "replaceProp k v ((k', v') # ps) =
     (if k' = k then (k, v) # ps else (k', v') # replaceProp k v ps)"

definition putProp :: "jstring \<Rightarrow> jsval \<Rightarrow> props \<Rightarrow> props" where
  "putProp k v ps =
     (if map_of ps k \<noteq> None then replaceProp k v ps
      else if isArrayIndex k then insertIndex k v ps
      else ps @ [(k, v)])"

text \<open>
  The assignment \<^verbatim>\<open>x.name = v\<close> of the (non-strict) script, as far as the written JSON text
  shows it: an object gets or updates the property; on a string, number or boolean the
  assignment has no effect, and on an array it creates a named property that
  \<^verbatim>\<open>JSON.stringify\<close> does not write.
\<close>

fun setProp :: "jsval \<Rightarrow> jstring \<Rightarrow> jsval \<Rightarrow> jsval" where
  "setProp (JObj ps) k v = JObj (putProp k v ps)"
| "setProp x k v = x"

text \<open>\<^verbatim>\<open>x.a.b = v\<close> where \<^verbatim>\<open>x.a\<close> is present.\<close>

definition setProp2 :: "jsval \<Rightarrow> jstring \<Rightarrow> jstring \<Rightarrow> jsval \<Rightarrow> jsval" where
  "setProp2 x a b v =
     (case getProp x a of None \<Rightarrow> x | Some inner \<Rightarrow> setProp x a (setProp inner b v))"

text \<open>\<^verbatim>\<open>isObject\<close> of the source: truthy, of type object, not an array.\<close>

fun isObject :: "jsval \<Rightarrow> bool" where
  "isObject (JObj ps) = True"
| "isObject v = False"

subsection \<open>Conversion to string\<close>

text \<open>
  \<^verbatim>\<open>ToString\<close>, which \<^verbatim>\<open>String(x)\<close>, \<^verbatim>\<open>re.test(x)\<close> and \<^verbatim>\<open>'0' + x\<close> apply.  An array is
  joined with commas, \<^verbatim>\<open>null\<close> elements giving the empty string.  A plain object gives
  \<^verbatim>\<open>[object Object]\<close> through \<^verbatim>\<open>Object.prototype.toString\<close>, unless it has an own
  property \<^verbatim>\<open>toString\<close>: a JSON value is never callable, the inherited
  \<^verbatim>\<open>valueOf\<close> (or an own one) yields no primitive, and the conversion throws a
  \<^verbatim>\<open>TypeError\<close>.
\<close>

definition joinWith :: "js_error + jstring \<Rightarrow> js_error + jstring \<Rightarrow> js_error + jstring" where
  "joinWith a b =
     (case a of Inl e \<Rightarrow> Inl e
      | Inr s \<Rightarrow> (case b of Inl e \<Rightarrow> Inl e | Inr t \<Rightarrow> Inr (s @ [44] @ t)))"

fun toStr :: "jsval \<Rightarrow> js_error + jstring"
  and elemStr :: "jsval \<Rightarrow> js_error + jstring"
  and joinElems :: "jsval list \<Rightarrow> js_error + jstring" where
  "toStr JNull = Inr (js ''null'')"
| "toStr (JBool b) = Inr (if b then js ''true'' else js ''false'')"
| "toStr (JNum n) = Inr (numStr n)"
| "toStr (JStr s) = Inr s"
| "toStr (JArr xs) = joinElems xs"
| "toStr (JObj ps) =
     (if map_of ps (js ''toString'') \<noteq> None
      then Inl (TypeError (js ''Cannot convert object to primitive value''))
      else Inr (js ''[object Object]''))"
| "elemStr JNull = Inr []"
| "elemStr (JBool b) = toStr (JBool b)"
| "elemStr (JNum n) = toStr (JNum n)"
| "elemStr (JStr s) = toStr (JStr s)"
| "elemStr (JArr xs) = toStr (JArr xs)"
| "elemStr (JObj ps) = toStr (JObj ps)"
| "joinElems [] = Inr []"
| "joinElems [x] = elemStr x"
| "joinElems (x # y # ys) = joinWith (elemStr x) (joinElems (y # ys))"

text \<open>\<^verbatim>\<open>x.length\<close>: of a string and of an array; an object has it only as an own
  property; other values have none.\<close>

fun lengthOf :: "jsval \<Rightarrow> jsval option" where
  "lengthOf (JStr s) = Some (JNum (Finite (of_nat (length s))))"
| "lengthOf (JArr xs) = Some (JNum (Finite (of_nat (length xs))))"
| "lengthOf (JObj ps) = map_of ps (js ''length'')"
| "lengthOf v = None"

section \<open>\<^verbatim>\<open>JSON.parse\<close>\<close>

text \<open>
  A model of the built-in \<^verbatim>\<open>JSON.parse\<close> (ECMA-404): a lexer from code units to tokens
  and a push-down recogniser over the tokens that builds the value.  White space is
  space, tab, line feed and carriage return; a string has no raw control character and
  only the escapes of JSON; no trailing comma, no comment, no unquoted key.  A repeated
  key keeps its first place and takes its last value.  A number literal denotes the
  double nearest to its decimal value, an infinity beyond the range of the doubles.
  \<open>None\<close> stands for the \<^verbatim>\<open>SyntaxError\<close> the built-in throws.
\<close>

datatype token =
    TLBrace | TRBrace | TLBracket | TRBracket | TColon | TComma
  | TString jstring | TNumber jsnumber | TTrue | TFalse | TNullTok

text \<open>Strings: the text after the opening quote, up to the closing quote.\<close>

definition hexValue :: "jschar \<Rightarrow> nat option" where
  "hexValue c =
     (if 48 \<le> c \<and> c \<le> 57 then Some (c - 48)
      else if 65 \<le> c \<and> c \<le> 70 then Some (c - 55)
      else if 97 \<le> c \<and> c \<le> 102 then Some (c - 87)
      else None)"

definition unescape :: "jschar \<Rightarrow> jschar option" where
  "unescape e =
     (if e = 34 then Some 34 else if e = 92 then Some 92 else if e = 47 then Some 47
      else if e = 98 then Some 8 else if e = 102 then Some 12 else if e = 110 then Some 10
      else if e = 114 then Some 13 else if e = 116 then Some 9 else None)"

definition consResult :: "jschar \<Rightarrow> (jstring \<times> jstring) option \<Rightarrow> (jstring \<times> jstring) option" where
  "consResult c r = map_option (\<lambda>(s, rest). (c # s, rest)) r"

fun lexString :: "jstring \<Rightarrow> (jstring \<times> jstring) option" where
  "lexString [] = None"
| "lexString (c # cs) =
     (if c = 34 then Some ([], cs)
      else if c = 92 then
        (case cs of
           [] \<Rightarrow> None
         | e # r \<Rightarrow>
             if e = 117 then
               (case r of
                  h1 # h2 # h3 # h4 # r' \<Rightarrow>
                    (case (hexValue h1, hexValue h2, hexValue h3, hexValue h4) of
                       (Some a, Some b, Some c', Some d) \<Rightarrow>
                         consResult (4096 * a + 256 * b + 16 * c' + d) (lexString r')
                     | _ \<Rightarrow> None)
                | _ \<Rightarrow> None)
             else
               (case unescape e of
                  None \<Rightarrow> None
                | Some u \<Rightarrow> consResult u (lexString r)))
      else if c < 32 then None
      else consResult c (lexString cs))"

text \<open>A JSON number: \<^verbatim>\<open>-? (0 | [1-9][0-9]*) (. [0-9]+)? ([eE] [+-]? [0-9]+)?\<close>.\<close>

definition lexInt :: "jstring \<Rightarrow> (jstring \<times> jstring) option" where
  "lexInt s =
     (case s of
        [] \<Rightarrow> None
      | c # cs \<Rightarrow>
          if \<not> isDigit c then None
          else if c = 48 then Some ([48], cs)
          else Some (takeWhile isDigit s, dropWhile isDigit s))"

definition lexFrac :: "jstring \<Rightarrow> (jstring \<times> jstring) option" where
  "lexFrac s =
     (case s of
        [] \<Rightarrow> Some ([], s)
      | c # cs \<Rightarrow>
          if c \<noteq> 46 then Some ([], s)
          else if takeWhile isDigit cs = [] then None
          else Some (takeWhile isDigit cs, dropWhile isDigit cs))"

definition lexExpDigits :: "bool \<Rightarrow> jstring \<Rightarrow> (int \<times> jstring) option" where
  "lexExpDigits neg s =
     (if takeWhile isDigit s = [] then None
      else Some ((if neg then - 1 else 1) * int (digitsValue (takeWhile isDigit s) 0),
                 dropWhile isDigit s))"

definition lexExp :: "jstring \<Rightarrow> (int \<times> jstring) option" where
  "lexExp s =
     (case s of
        [] \<Rightarrow> Some (0, s)
      | c # cs \<Rightarrow>
          if c \<noteq> 101 \<and> c \<noteq> 69 then Some (0, s)
          else (case cs of
                  [] \<Rightarrow> None
                | g # ds \<Rightarrow>
                    if g = 45 then lexExpDigits True ds
                    else if g = 43 then lexExpDigits False ds
                    else lexExpDigits False cs))"

definition scale10 :: "rat \<Rightarrow> int \<Rightarrow> rat" where
  "scale10 m e = (if 0 \<le> e then m * 10 ^ nat e else m / 10 ^ nat (- e))"

definition lexUnsigned :: "jstring \<Rightarrow> (jsnumber \<times> jstring) option" where
  "lexUnsigned s =
     (case lexInt s of
        None \<Rightarrow> None
      | Some (ip, s2) \<Rightarrow>
          (case lexFrac s2 of
             None \<Rightarrow> None
           | Some (fp, s3) \<Rightarrow>
               (case lexExp s3 of
                  None \<Rightarrow> None
                | Some (e, s4) \<Rightarrow>
                    Some (roundDouble (scale10 (of_nat (digitsValue (ip @ fp) 0)) (e - int (length fp))),
                          s4))))"

definition lexNumber :: "jstring \<Rightarrow> (jsnumber \<times> jstring) option" where
  "lexNumber s =
     (case s of
        [] \<Rightarrow> None
      | c # cs \<Rightarrow>
          if c = 45 then map_option (\<lambda>(v, rest). (numNeg v, rest)) (lexUnsigned cs)
          else lexUnsigned s)"

lemma lexString_length: "lexString cs = Some (s, rest) \<Longrightarrow> length rest < Suc (length cs)"
proof (induction cs arbitrary: s rest rule: lexString.induct)
  case 1
  then show ?case by simp
next
  case (2 c cs)
  show ?case using "2.prems" "2.IH"
    apply (simp add: consResult_def less_Suc_eq_le split: if_splits list.splits option.splits prod.splits)
     apply fastforce+
    done
qed


lemma lexInt_length: "lexInt s = Some (ip, rest) \<Longrightarrow> length rest < length s"
  by (auto simp: lexInt_def length_dropWhile_le less_Suc_eq_le split: list.splits if_splits)

lemma lexFrac_length: "lexFrac s = Some (fp, rest) \<Longrightarrow> length rest \<le> length s"
  by (auto simp: lexFrac_def length_dropWhile_le le_SucI split: list.splits if_splits)

lemma lexExpDigits_length: "lexExpDigits neg s = Some (e, rest) \<Longrightarrow> length rest \<le> length s"
  by (auto simp: lexExpDigits_def length_dropWhile_le split: if_splits)

lemma lexExp_length: "lexExp s = Some (e, rest) \<Longrightarrow> length rest \<le> length s"
  by (auto simp: lexExp_def le_SucI split: list.splits if_splits dest!: lexExpDigits_length)

lemma lexUnsigned_length: "lexUnsigned s = Some (v, rest) \<Longrightarrow> length rest < length s"
proof -
  assume "lexUnsigned s = Some (v, rest)"
  then obtain ip s2 fp s3 e where
    "lexInt s = Some (ip, s2)" "lexFrac s2 = Some (fp, s3)" "lexExp s3 = Some (e, rest)"
    by (auto simp: lexUnsigned_def split: option.splits)
  then show ?thesis
    using lexInt_length lexFrac_length lexExp_length by fastforce
qed

lemma lexNumber_length: "lexNumber cs = Some (v, rest) \<Longrightarrow> length rest < length cs"
  by (auto simp: lexNumber_def less_SucI split: list.splits if_splits dest!: lexUnsigned_length)

definition consTok :: "token \<Rightarrow> token list option \<Rightarrow> token list option" where
  "consTok t r = map_option (\<lambda>ts. t # ts) r"

definition isJsonSpace :: "jschar \<Rightarrow> bool" where
  "isJsonSpace c \<longleftrightarrow> c = 32 \<or> c = 9 \<or> c = 10 \<or> c = 13"

definition lexToken :: "jschar \<Rightarrow> jstring \<Rightarrow> (token \<times> jstring) option" where
  "lexToken c cs =
     (if c = 123 then Some (TLBrace, cs)
      else if c = 125 then Some (TRBrace, cs)
      else if c = 91 then Some (TLBracket, cs)
      else if c = 93 then Some (TRBracket, cs)
      else if c = 58 then Some (TColon, cs)
      else if c = 44 then Some (TComma, cs)
      else if c = 34 then map_option (\<lambda>(s, rest). (TString s, rest)) (lexString cs)
      else if c = 45 \<or> isDigit c then
        map_option (\<lambda>(v, rest). (TNumber v, rest)) (lexNumber (c # cs))
      else if startsWith (c # cs) (js ''true'') then Some (TTrue, drop 3 cs)
      else if startsWith (c # cs) (js ''false'') then Some (TFalse, drop 4 cs)
      else if startsWith (c # cs) (js ''null'') then Some (TNullTok, drop 3 cs)
      else None)"

lemma lexToken_length: "lexToken c cs = Some (t, rest) \<Longrightarrow> length rest < Suc (length cs)"
proof -
  assume a: "lexToken c cs = Some (t, rest)"
  have "(\<exists>x. lexString cs = Some (x, rest)) \<or> (\<exists>v. lexNumber (c # cs) = Some (v, rest))
      \<or> rest = cs \<or> rest = drop 3 cs \<or> rest = drop 4 cs"
    using a unfolding lexToken_def
    by (simp split: if_splits prod.splits) blast+
  then consider (str) x where "lexString cs = Some (x, rest)"
    | (num) v where "lexNumber (c # cs) = Some (v, rest)"
    | (other) "rest = cs \<or> rest = drop 3 cs \<or> rest = drop 4 cs"
    by blast
  then show ?thesis
  proof cases
    case str
    from lexString_length[OF this] show ?thesis by simp
  next
    case num
    from lexNumber_length[OF this] show ?thesis by simp
  next
    case other
    then have "length rest \<le> length cs" by auto
    then show ?thesis by simp
  qed
qed

function lex :: "jstring \<Rightarrow> token list option" where
  "lex [] = Some []"
| "lex (c # cs) =
     (if isJsonSpace c then lex cs
      else (case lexToken c cs of
              None \<Rightarrow> None
            | Some (t, rest) \<Rightarrow> consTok t (lex rest)))"
  by pat_completeness auto
termination
proof (relation "measure length")
  show "wf (measure length)" by simp
next
  fix c cs assume "isJsonSpace c"
  show "(cs, c # cs) \<in> measure length" by simp
next
  fix c cs x2 x y
  assume "\<not> isJsonSpace c" "lexToken c cs = Some x2" "(x, y) = x2"
  then have "lexToken c cs = Some (x, y)" by simp
  from lexToken_length[OF this] show "(y, c # cs) \<in> measure length" by simp
qed


text \<open>The recogniser: the states say what may come next; a frame is an array or an
  object under construction that waits for a value.\<close>

datatype frame = FArr "jsval list" | FObj props jstring

datatype pstate =
    PValue "frame list"
  | PArrFirst "frame list"
  | PArrNext "jsval list" "frame list"
  | PObjFirst "frame list"
  | PObjKey props "frame list"
  | PObjColon props jstring "frame list"
  | PObjNext props "frame list"
  | PDone jsval

fun reduce :: "jsval \<Rightarrow> frame list \<Rightarrow> pstate" where
  "reduce v [] = PDone v"
| "reduce v (FArr xs # stk) = PArrNext (xs @ [v]) stk"
| "reduce v (FObj ps k # stk) = PObjNext (putProp k v ps) stk"

fun startValue :: "token \<Rightarrow> frame list \<Rightarrow> pstate option" where
  "startValue TLBrace stk = Some (PObjFirst stk)"
| "startValue TLBracket stk = Some (PArrFirst stk)"
| "startValue (TString s) stk = Some (reduce (JStr s) stk)"
| "startValue (TNumber n) stk = Some (reduce (JNum n) stk)"
| "startValue TTrue stk = Some (reduce (JBool True) stk)"
| "startValue TFalse stk = Some (reduce (JBool False) stk)"
| "startValue TNullTok stk = Some (reduce JNull stk)"
| "startValue _ stk = None"

fun pstep :: "pstate \<Rightarrow> token \<Rightarrow> pstate option" where
  "pstep (PValue stk) t = startValue t stk"
| "pstep (PArrFirst stk) t =
     (if t = TRBracket then Some (reduce (JArr []) stk) else startValue t (FArr [] # stk))"
| "pstep (PArrNext xs stk) t =
     (if t = TComma then Some (PValue (FArr xs # stk))
      else if t = TRBracket then Some (reduce (JArr xs) stk) else None)"
| "pstep (PObjFirst stk) t =
     (case t of TRBrace \<Rightarrow> Some (reduce (JObj []) stk)
      | TString k \<Rightarrow> Some (PObjColon [] k stk) | _ \<Rightarrow> None)"
| "pstep (PObjKey ps stk) t =
     (case t of TString k \<Rightarrow> Some (PObjColon ps k stk) | _ \<Rightarrow> None)"
| "pstep (PObjColon ps k stk) t =
     (if t = TColon then Some (PValue (FObj ps k # stk)) else None)"
| "pstep (PObjNext ps stk) t =
     (if t = TComma then Some (PObjKey ps stk)
      else if t = TRBrace then Some (reduce (JObj ps) stk) else None)"
| "pstep (PDone v) t = None"

fun prun :: "pstate \<Rightarrow> token list \<Rightarrow> pstate option" where
  "prun st [] = Some st"
| "prun st (t # ts) = (case pstep st t of None \<Rightarrow> None | Some st' \<Rightarrow> prun st' ts)"

definition jsonParse :: "jstring \<Rightarrow> jsval option" where
  "jsonParse text =
     (case lex text of
        None \<Rightarrow> None
      | Some ts \<Rightarrow> (case prun (PValue []) ts of Some (PDone v) \<Rightarrow> Some v | _ \<Rightarrow> None))"

section \<open>The literal locator: \<^verbatim>\<open>extractFact\<close>\<close>

datatype extract_error = MarkerNotFound | UnexpectedToken | UnbalancedBraces

text \<open>The message the source puts into \<^verbatim>\<open>{ error: ... }\<close> for each failure.\<close>

fun extract_message :: "extract_error \<Rightarrow> jstring" where
  "extract_message MarkerNotFound = js ''Marker `DisconSchedule.fact =` not found''"
| "extract_message UnexpectedToken = js ''Expected `{` after `DisconSchedule.fact =`''"
| "extract_message UnbalancedBraces = js ''Unbalanced braces while extracting fact object''"

record extraction =
  jsonLike :: jstring
  startIndex :: nat
  endIndex :: nat

definition marker :: jstring where
  "marker = js ''DisconSchedule.fact =''"

text \<open>\<^verbatim>\<open>while (i < html.length && /\s/.test(html[i])) i++\<close>, on the text from \<open>i\<close> on.\<close>

fun skipSpace :: "jstring \<Rightarrow> nat \<Rightarrow> nat" where
  "skipSpace [] i = i"
| "skipSpace (c # cs) i = (if isSpace c then skipSpace cs (i + 1) else i)"

text \<open>The \<^verbatim>\<open>for (; i < html.length; i++)\<close> loop over the text from \<open>i\<close> on, with
  the depth counter; the result is \<^verbatim>\<open>i + 1\<close> at the closing brace, \<open>None\<close> when the
  loop runs off the end of the text.\<close>

fun scanBraces :: "jstring \<Rightarrow> int \<Rightarrow> nat \<Rightarrow> nat option" where
  "scanBraces [] depth i = None"
| "scanBraces (ch # rest) depth i =
     (if ch = 123 then scanBraces rest (depth + 1) (i + 1)
      else if ch = 125 then
        (if depth - 1 = 0 then Some (i + 1) else scanBraces rest (depth - 1) (i + 1))
      else scanBraces rest depth (i + 1))"

definition extractFact :: "jstring \<Rightarrow> extract_error + extraction" where
  "extractFact html =
     (case indexOf html marker of
        None \<Rightarrow> Inl MarkerNotFound
      | Some idx \<Rightarrow>
          let i = skipSpace (drop (idx + length marker) html) (idx + length marker) in
          if \<not> (i < length html \<and> html ! i = 123) then Inl UnexpectedToken
          else
            (case scanBraces (drop i html) 0 i of
               Some e \<Rightarrow> Inr \<lparr>jsonLike = slice html i e, startIndex = i, endIndex = e\<rparr>
             | None \<Rightarrow> Inl UnbalancedBraces))"

text \<open>Vocabulary of the specification: the brace depth of a text is the number of its
  opening braces minus the number of its closing braces, every brace counted, quoted or
  not.  That a text occurs in another one is \<^const>\<open>sublist\<close> of the library.\<close>

definition braceDepth :: "jstring \<Rightarrow> int" where
  "braceDepth s = int (length (filter (\<lambda>c. c = 123) s)) - int (length (filter (\<lambda>c. c = 125) s))"

text \<open>The marker occurs in \<open>html\<close> for the first time right after \<open>pre\<close>, is
  followed by the white space \<open>ws\<close>, and \<open>rest\<close> starts with the next character that is
  not white space (or is empty).\<close>

definition markerSplit :: "jstring \<Rightarrow> jstring \<Rightarrow> jstring \<Rightarrow> jstring \<Rightarrow> bool" where
  "markerSplit html pre ws rest \<longleftrightarrow>
     html = pre @ marker @ ws @ rest \<and> \<not> sublist marker (pre @ butlast marker) \<and>
     list_all isSpace ws \<and> (case rest of [] \<Rightarrow> True | c # _ \<Rightarrow> \<not> isSpace c)"

text \<open>The brace depth of \<open>rest\<close> is zero after \<open>n\<close> characters and after no shorter
  non-empty prefix.\<close>

definition closesAt :: "jstring \<Rightarrow> nat \<Rightarrow> bool" where
  "closesAt rest n \<longleftrightarrow>
     0 < n \<and> n \<le> length rest \<and> braceDepth (take n rest) = 0 \<and>
     list_all (\<lambda>m. braceDepth (take m rest) \<noteq> 0) [1..<n]"

section \<open>The structural parser: \<^verbatim>\<open>tryParseObject\<close>\<close>

text \<open>
  The fallback of the source is \<^verbatim>\<open>Function('"use strict"; return (' + text + ');')()\<close>:
  the engine compiles the text as the body of a JavaScript function and runs it.  The
  evaluator of the host is a parameter \<open>ev\<close> of the model: applied to the source text of
  the function body it yields the value the call returns, or the message of the
  exception the compilation or the call throws.  The result of \<^verbatim>\<open>tryParseObject\<close> is
  \<open>Inl\<close> of the \<^verbatim>\<open>error\<close> text or \<open>Inr\<close> of the value and the method.
\<close>

type_synonym evaluator = "jstring \<Rightarrow> jstring + jsval"

definition functionBody :: "jstring \<Rightarrow> jstring" where
  "functionBody text = [34] @ js ''use strict'' @ [34] @ js ''; return ('' @ text @ js '');''"

definition tryParseObject :: "evaluator \<Rightarrow> jstring \<Rightarrow> jstring + (jsval \<times> jstring)" where
  "tryParseObject ev text =
     (case jsonParse text of
        Some v \<Rightarrow> Inr (v, js ''json'')
      | None \<Rightarrow>
          (case ev (functionBody text) of
             Inr val \<Rightarrow> Inr (val, js ''eval'')
           | Inl message \<Rightarrow> Inl (js ''Failed to parse object: '' @ message)))"

section \<open>Dates and the conversion to the fixed time zone\<close>

subsection \<open>Numbers of the date arithmetic\<close>

text \<open>\<^verbatim>\<open>x || d\<close> for a number \<open>x\<close> that may be absent: \<^verbatim>\<open>undefined\<close>, \<^verbatim>\<open>NaN\<close> and zero are
  falsy.\<close>

definition numOr :: "jsnumber option \<Rightarrow> rat \<Rightarrow> jsnumber" where
  "numOr x d =
     (case x of
        None \<Rightarrow> Finite d
      | Some n \<Rightarrow> if numTruthy n then n else Finite d)"

text \<open>\<^verbatim>\<open>x - 1\<close>.\<close>

definition minusOne :: "jsnumber \<Rightarrow> jsnumber" where
  "minusOne n = numAdd n (Finite (- 1))"

subsection \<open>\<^verbatim>\<open>Number(string)\<close>\<close>

text \<open>
  The grammar \<^verbatim>\<open>StringNumericLiteral\<close>: white space is trimmed; the empty text is zero;
  \<^verbatim>\<open>Infinity\<close> with an optional sign; an unsigned hexadecimal, octal or binary literal;
  or a signed decimal literal with an optional fraction and exponent.  Anything else is
  \<^verbatim>\<open>NaN\<close>.  The number is the double nearest to the value of the literal.
\<close>

definition trimSpace :: "jstring \<Rightarrow> jstring" where
  "trimSpace s = rev (dropWhile isSpace (rev (dropWhile isSpace s)))"

fun radixValue :: "nat \<Rightarrow> jstring \<Rightarrow> nat \<Rightarrow> nat option" where
  "radixValue b [] acc = Some acc"
| "radixValue b (c # cs) acc =
     (case hexValue c of
        None \<Rightarrow> None
      | Some d \<Rightarrow> if d < b then radixValue b cs (b * acc + d) else None)"

definition radixLiteral :: "nat \<Rightarrow> jstring \<Rightarrow> jsnumber" where
  "radixLiteral b ds =
     (if ds = [] then NaN
      else (case radixValue b ds 0 of None \<Rightarrow> NaN | Some n \<Rightarrow> roundDouble (of_nat n)))"

definition decimalLiteral :: "jstring \<Rightarrow> rat option" where
  "decimalLiteral u =
     (let ip = takeWhile isDigit u;
          r1 = dropWhile isDigit u;
          hasDot = (r1 \<noteq> [] \<and> hd r1 = 46);
          fp = (if hasDot then takeWhile isDigit (tl r1) else []);
          r2 = (if hasDot then dropWhile isDigit (tl r1) else r1)
      in if ip = [] \<and> fp = [] then None
         else (case lexExp r2 of
                 Some (e, []) \<Rightarrow> Some (scale10 (of_nat (digitsValue (ip @ fp) 0)) (e - int (length fp)))
               | _ \<Rightarrow> None))"

definition strToNumber :: "jstring \<Rightarrow> jsnumber" where
  "strToNumber s =
     (let t = trimSpace s in
      if t = [] then Finite 0
      else if t = js ''Infinity'' \<or> t = js ''+Infinity'' then PosInf
      else if t = js ''-Infinity'' then NegInf
      else if startsWith t (js ''0x'') \<or> startsWith t (js ''0X'') then radixLiteral 16 (drop 2 t)
      else if startsWith t (js ''0o'') \<or> startsWith t (js ''0O'') then radixLiteral 8 (drop 2 t)
      else if startsWith t (js ''0b'') \<or> startsWith t (js ''0B'') then radixLiteral 2 (drop 2 t)
      else if hd t = 45 then
        (case decimalLiteral (tl t) of None \<Rightarrow> NaN | Some r \<Rightarrow> numNeg (roundDouble r))
      else if hd t = 43 then
        (case decimalLiteral (tl t) of None \<Rightarrow> NaN | Some r \<Rightarrow> roundDouble r)
      else (case decimalLiteral t of None \<Rightarrow> NaN | Some r \<Rightarrow> roundDouble r))"

text \<open>\<^verbatim>\<open>s.split(sep)\<close> for a separator of one character.\<close>

fun splitOn :: "jschar \<Rightarrow> jstring \<Rightarrow> jstring list" where
  "splitOn sep [] = [[]]"
| "splitOn sep (c # cs) =
     (if c = sep then [] # splitOn sep cs
      else (case splitOn sep cs of [] \<Rightarrow> [[c]] | w # ws \<Rightarrow> (c # w) # ws))"

text \<open>An element of a list that may be too short, as destructuring reads it.\<close>

definition nthOpt :: "'a list \<Rightarrow> nat \<Rightarrow> 'a option" where
  "nthOpt xs n = (if n < length xs then Some (xs ! n) else None)"

subsection \<open>Time values\<close>

text \<open>
  A time value is a number of milliseconds since 1970-01-01T00:00:00Z; \<open>None\<close> stands
  for \<^verbatim>\<open>NaN\<close>, the time value of an invalid \<^verbatim>\<open>Date\<close>.  Days and civil dates of the
  proleptic Gregorian calendar convert by the usual era arithmetic (months 1 to 12).
\<close>

definition daysFromCivil :: "int \<Rightarrow> int \<Rightarrow> int \<Rightarrow> int" where
  "daysFromCivil y m d =
     (let y' = (if m \<le> 2 then y - 1 else y);
          era = y' div 400;
          yoe = y' - era * 400;
          doy = (153 * (if m > 2 then m - 3 else m + 9) + 2) div 5 + d - 1;
          doe = yoe * 365 + yoe div 4 - yoe div 100 + doy
      in era * 146097 + doe - 719468)"

definition civilFromDays :: "int \<Rightarrow> int \<times> int \<times> int" where
  "civilFromDays z =
     (let z' = z + 719468;
          era = z' div 146097;
          doe = z' - era * 146097;
          yoe = (doe - doe div 1460 + doe div 36524 - doe div 146096) div 365;
          doy = doe - (365 * yoe + yoe div 4 - yoe div 100);
          mp = (5 * doy + 2) div 153;
          d = doy - (153 * mp + 2) div 5 + 1;
          m = (if mp < 10 then mp + 3 else mp - 9)
      in (if m \<le> 2 then yoe + era * 400 + 1 else yoe + era * 400, m, d))"

definition msPerDay :: int where
  "msPerDay = 86400000"

text \<open>\<^verbatim>\<open>TimeClip\<close>, of a finite number and of any number.\<close>

definition timeClip :: "rat \<Rightarrow> int option" where
  "timeClip t = (if \<bar>t\<bar> > 8640000000000000 then None else Some (truncRat t))"

definition timeClipNum :: "jsnumber \<Rightarrow> int option" where
  "timeClipNum n = (case n of Finite t \<Rightarrow> timeClip t | _ \<Rightarrow> None)"

fun finiteOf :: "jsnumber \<Rightarrow> rat option" where
  "finiteOf (Finite r) = Some r"
| "finiteOf n = None"

text \<open>
  \<^verbatim>\<open>Date.UTC(year, month, date, hours, minutes, seconds)\<close>: \<^verbatim>\<open>NaN\<close> unless every
  argument is finite; each argument is truncated; a year from 0 to 99 means 1900 to
  1999; months beyond 0 to 11 and days beyond the month carry over.  The day number and
  the time within the day are computed on integers.  The engine passes no argument below
  \<open>-1\<close>; for such arguments, whenever a step of the built-in would round, the result is
  beyond the range of the time values and is \<^verbatim>\<open>NaN\<close> both ways.
\<close>

definition dateUTC ::
  "jsnumber \<Rightarrow> jsnumber \<Rightarrow> jsnumber \<Rightarrow> jsnumber \<Rightarrow> jsnumber \<Rightarrow> jsnumber \<Rightarrow> int option" where
  "dateUTC year month date hours minutes seconds =
     (case (finiteOf year, finiteOf month, finiteOf date, finiteOf hours, finiteOf minutes,
            finiteOf seconds) of
        (Some y, Some m, Some dt, Some h, Some mi, Some s) \<Rightarrow>
          (let yi = truncRat y;
               yr = (if 0 \<le> yi \<and> yi \<le> 99 then 1900 + yi else yi);
               mo = truncRat m;
               day = daysFromCivil (yr + mo div 12) (mo mod 12 + 1) 1 + truncRat dt - 1;
               time = truncRat h * 3600000 + truncRat mi * 60000 + truncRat s * 1000
           in timeClip (of_int (day * msPerDay + time)))
      | _ \<Rightarrow> None)"

text \<open>\<^verbatim>\<open>String(n).padStart(2, '0')\<close>.\<close>

function padStart :: "nat \<Rightarrow> jstring \<Rightarrow> jstring" where
  "padStart n s = (if length s < n then padStart n (48 # s) else s)"
  by pat_completeness auto
termination
  by (relation "measure (\<lambda>(n, s). n - length s)") auto

declare padStart.simps [simp del]

definition pad2 :: "jsnumber \<Rightarrow> jstring" where
  "pad2 n = padStart 2 (numStr n)"

text \<open>\<^verbatim>\<open>new Date(t).toISOString()\<close> for a valid time value.\<close>

definition toISOString :: "int \<Rightarrow> jstring" where
  "toISOString t =
     (case civilFromDays (t div msPerDay) of
        (y, m, d) \<Rightarrow>
          (let ms = t mod msPerDay;
               year = (if 0 \<le> y \<and> y \<le> 9999 then padStart 4 (natDigits (nat y))
                       else (if y < 0 then [45] else [43]) @ padStart 6 (natDigits (nat \<bar>y\<bar>)))
           in year @ [45] @ padStart 2 (natDigits (nat m)) @ [45] @ padStart 2 (natDigits (nat d))
              @ [84] @ padStart 2 (natDigits (nat (ms div 3600000)))
              @ [58] @ padStart 2 (natDigits (nat (ms div 60000 mod 60)))
              @ [58] @ padStart 2 (natDigits (nat (ms div 1000 mod 60)))
              @ [46] @ padStart 3 (natDigits (nat (ms mod 1000))) @ [90]))"

subsection \<open>The offset of the zone and \<^verbatim>\<open>toKyivIso\<close>\<close>

text \<open>
  The wall clock of \<^verbatim>\<open>Europe/Kyiv\<close> at an instant comes from the time zone data of the
  host through \<^verbatim>\<open>Intl.DateTimeFormat\<close>; it is a parameter of the model: \<open>wall t\<close> holds
  the six numbers \<^verbatim>\<open>parseInt\<close> reads from the formatted parts of the instant \<open>t\<close>, a
  calendar date and a time of day.
\<close>

record wallclock =
  wYear :: int
  wMonth :: int
  wDay :: int
  wHour :: int
  wMinute :: int
  wSecond :: int

type_synonym zone = "int \<Rightarrow> wallclock"

text \<open>\<^verbatim>\<open>tzOffsetMinutes(utcTs, timeZone)\<close> for a valid instant \<open>utcTs\<close>.  (For an invalid
  date \<^verbatim>\<open>formatToParts\<close> throws; the callers below model that.)\<close>

definition tzOffsetMinutes :: "zone \<Rightarrow> int \<Rightarrow> jsnumber" where
  "tzOffsetMinutes wall utcTs =
     (let p = wall utcTs in
      case dateUTC (Finite (of_int (wYear p))) (Finite (of_int (wMonth p) - 1))
             (Finite (of_int (wDay p))) (Finite (of_int (wHour p)))
             (Finite (of_int (wMinute p))) (Finite (of_int (wSecond p))) of
        None \<Rightarrow> NaN
      | Some asUTC \<Rightarrow>
          numDividedBy (numAdd (Finite (of_int asUTC)) (numNeg (Finite (of_int utcTs)))) 60000)"

definition invalidTime :: js_error where
  "invalidTime = RangeError (js ''Invalid time value'')"

text \<open>\<^verbatim>\<open>zonedTimeToUtc\<close>: the time value of the returned \<^verbatim>\<open>Date\<close>, \<open>None\<close> for an invalid
  one.\<close>

definition zonedTimeToUtc :: "zone \<Rightarrow> jstring \<Rightarrow> jstring \<Rightarrow> js_error + int option" where
  "zonedTimeToUtc wall dateStr timeStr =
     (let ds = map strToNumber (splitOn 45 dateStr);
          ts = map strToNumber (splitOn 58 timeStr);
          guess = dateUTC (case nthOpt ds 0 of None \<Rightarrow> NaN | Some Y \<Rightarrow> Y)
                    (minusOne (numOr (nthOpt ds 1) 1)) (numOr (nthOpt ds 2) 1)
                    (numOr (nthOpt ts 0) 0) (numOr (nthOpt ts 1) 0) (Finite 0)
      in case guess of
           None \<Rightarrow> Inl invalidTime
         | Some t \<Rightarrow>
             Inr (timeClipNum (numAdd (Finite (of_int t))
                                 (numNeg (numTimes (tzOffsetMinutes wall t) 60000)))))"

text \<open>\<^verbatim>\<open>formatOffset\<close>; every comparison with \<^verbatim>\<open>NaN\<close> is false.\<close>

definition formatOffset :: "jsnumber \<Rightarrow> jstring" where
  "formatOffset totalMinutes =
     (let a = numAbs totalMinutes;
          hh = pad2 (numFloor (numDividedBy a 60));
          mm = pad2 (numRem a 60)
      in (if (case totalMinutes of Finite t \<Rightarrow> 0 \<le> t | PosInf \<Rightarrow> True | _ \<Rightarrow> False)
          then [43] else [45]) @ hh @ [58] @ mm)"

text \<open>\<^verbatim>\<open>toKyivIso\<close>: the year, month, day, hours, minutes and seconds are read from the
  computed instant with the \<^verbatim>\<open>getUTC...\<close> accessors.\<close>

definition toKyivIso :: "zone \<Rightarrow> jstring \<Rightarrow> jstring \<Rightarrow> js_error + jstring" where
  "toKyivIso wall dateStr timeStr =
     (case zonedTimeToUtc wall dateStr timeStr of
        Inl e \<Rightarrow> Inl e
      | Inr None \<Rightarrow> Inl invalidTime
      | Inr (Some t) \<Rightarrow>
          (let off = tzOffsetMinutes wall t;
               ms = t mod msPerDay
           in case civilFromDays (t div msPerDay) of
                (Y, M, D) \<Rightarrow>
                  Inr (numStr (Finite (of_int Y)) @ [45] @ pad2 (Finite (of_int M)) @ [45]
                       @ pad2 (Finite (of_int D))
                       @ [84] @ pad2 (Finite (of_int (ms div 3600000)))
                       @ [58] @ pad2 (Finite (of_int (ms div 60000 mod 60)))
                       @ [58] @ pad2 (Finite (of_int (ms div 1000 mod 60)))
                       @ formatOffset off)))"

text \<open>A zone with a fixed offset of \<open>minutes\<close> from UTC, for instance 120 for UTC+2: the
  wall clock is the civil date and time of the shifted instant.\<close>

definition fixedZone :: "int \<Rightarrow> zone" where
  "fixedZone minutes t =
     (let local = t + minutes * 60000; ms = local mod msPerDay
      in case civilFromDays (local div msPerDay) of
           (y, m, d) \<Rightarrow>
             \<lparr>wYear = y, wMonth = m, wDay = d, wHour = ms div 3600000,
              wMinute = ms div 60000 mod 60, wSecond = ms div 1000 mod 60\<rparr>)"

section \<open>The group normalizer\<close>

subsection \<open>The two regular expressions\<close>

text \<open>
  \<^verbatim>\<open>/^[A-Z\<close>\<open>\<dots>\<close>\<^verbatim>\<open>]{2,}\d+\.\d+$/i\<close>, whose class holds the Latin capitals and the Cyrillic
  capitals U+0410 to U+042F.  Under the flag \<^verbatim>\<open>i\<close> a code unit matches the class when its
  upper case does: the capitals themselves, the Latin small letters, the Cyrillic small
  letters U+0430 to U+044F, and the code units U+1C80 to U+1C86, whose upper case is
  a Cyrillic capital of the range.  The letters, the digits and the dot are disjoint, so
  the match is the greedy split of the key.
\<close>

definition isGroupLetter :: "jschar \<Rightarrow> bool" where
  "isGroupLetter c \<longleftrightarrow>
     (65 \<le> c \<and> c \<le> 90) \<or> (97 \<le> c \<and> c \<le> 122) \<or> (1040 \<le> c \<and> c \<le> 1103)
     \<or> (7296 \<le> c \<and> c \<le> 7302)"

definition digitsDotDigits :: "jstring \<Rightarrow> bool" where
  "digitsDotDigits s \<longleftrightarrow>
     takeWhile isDigit s \<noteq> [] \<and>
     (case dropWhile isDigit s of
        [] \<Rightarrow> False
      | c # ds \<Rightarrow> c = 46 \<and> ds \<noteq> [] \<and> list_all isDigit ds)"

definition groupKeyRe :: "jstring \<Rightarrow> bool" where
  "groupKeyRe k \<longleftrightarrow>
     2 \<le> length (takeWhile isGroupLetter k) \<and> digitsDotDigits (dropWhile isGroupLetter k)"

text \<open>\<^verbatim>\<open>/^\d{1,2}:\d{2}$/\<close> on a string.\<close>

definition timeRe :: "jstring \<Rightarrow> bool" where
  "timeRe s \<longleftrightarrow>
     (case s of
        [h, c, m1, m2] \<Rightarrow> isDigit h \<and> c = 58 \<and> isDigit m1 \<and> isDigit m2
      | [h1, h2, c, m1, m2] \<Rightarrow> isDigit h1 \<and> isDigit h2 \<and> c = 58 \<and> isDigit m1 \<and> isDigit m2
      | _ \<Rightarrow> False)"

text \<open>\<^verbatim>\<open>timeRe.test(x)\<close> converts \<open>x\<close> to a string first, which may throw.\<close>

definition timeReTest :: "jsval \<Rightarrow> js_error + bool" where
  "timeReTest x = (case toStr x of Inl e \<Rightarrow> Inl e | Inr s \<Rightarrow> Inr (timeRe s))"

subsection \<open>Entries\<close>

text \<open>\<^verbatim>\<open>entry.a || entry.b || entry.c || null\<close> and the same with four names.\<close>

definition valueOrNull :: "jsval option \<Rightarrow> jsval" where
  "valueOrNull x = (case x of None \<Rightarrow> JNull | Some v \<Rightarrow> v)"

definition firstOf3 :: "jsval \<Rightarrow> jstring \<Rightarrow> jstring \<Rightarrow> jstring \<Rightarrow> jsval" where
  "firstOf3 entry a b c =
     valueOrNull (orElse (orElse (orElse (getProp entry a) (getProp entry b)) (getProp entry c))
                    (Some JNull))"

definition firstOf4 :: "jsval \<Rightarrow> jstring \<Rightarrow> jstring \<Rightarrow> jstring \<Rightarrow> jstring \<Rightarrow> jsval" where
  "firstOf4 entry a b c d =
     valueOrNull (orElse (orElse (orElse (orElse (getProp entry a) (getProp entry b))
                    (getProp entry c)) (getProp entry d)) (Some JNull))"

text \<open>\<^verbatim>\<open>if (x.length === 4) x = '0' + x\<close>.\<close>

definition padHour :: "jsval \<Rightarrow> js_error + jsval" where
  "padHour x =
     (if lengthOf x = Some (JNum (Finite 4))
      then (case toStr x of Inl e \<Rightarrow> Inl e | Inr s \<Rightarrow> Inr (JStr (48 # s)))
      else Inr x)"

text \<open>The body of the \<^verbatim>\<open>try\<close> block: the two conversions and the new item.\<close>

definition isoItem :: "zone \<Rightarrow> jsval \<Rightarrow> jsval \<Rightarrow> jsval \<Rightarrow> js_error + jsval" where
  "isoItem wall date start end =
     (case toStr date of
        Inl e \<Rightarrow> Inl e
      | Inr ds \<Rightarrow>
          (case toStr start of
             Inl e \<Rightarrow> Inl e
           | Inr ss \<Rightarrow>
               (case toKyivIso wall ds ss of
                  Inl e \<Rightarrow> Inl e
                | Inr startISO \<Rightarrow>
                    (case toStr end of
                       Inl e \<Rightarrow> Inl e
                     | Inr es \<Rightarrow>
                         (case toKyivIso wall ds es of
                            Inl e \<Rightarrow> Inl e
                          | Inr endISO \<Rightarrow>
                              Inr (JObj [(js ''date'', JStr ds),
                                         (js ''startLocal'', JStr startISO),
                                         (js ''endLocal'', JStr endISO)]))))))"

text \<open>What the loop over the entries pushes for one entry; \<open>Inl\<close> when the pattern test
  throws, which no \<^verbatim>\<open>try\<close> encloses.  An exception inside the \<^verbatim>\<open>try\<close> block falls
  through to the raw entry.\<close>

definition convertMatched :: "zone \<Rightarrow> jsval \<Rightarrow> jsval \<Rightarrow> jsval \<Rightarrow> jsval \<Rightarrow> js_error + jsval" where
  "convertMatched wall entry date start end =
     (case padHour start of
        Inl e \<Rightarrow> Inl e
      | Inr start' \<Rightarrow>
          (case padHour end of
             Inl e \<Rightarrow> Inl e
           | Inr end' \<Rightarrow>
               (case isoItem wall date start' end' of
                  Inl caught \<Rightarrow> Inr entry
                | Inr item \<Rightarrow> Inr item)))"

definition normalizeEntry :: "zone \<Rightarrow> jsval \<Rightarrow> js_error + jsval" where
  "normalizeEntry wall entry =
     (if \<not> isObject entry then Inr entry
      else
        let date = firstOf3 entry (js ''date'') (js ''day'') (js ''d'');
            start = firstOf4 entry (js ''start'') (js ''from'') (js ''begin'') (js ''s'');
            end = firstOf4 entry (js ''end'') (js ''to'') (js ''finish'') (js ''e'')
        in if \<not> (truthy date \<and> truthy start \<and> truthy end) then Inr entry
           else (case timeReTest start of
                   Inl e \<Rightarrow> Inl e
                 | Inr False \<Rightarrow> Inr entry
                 | Inr True \<Rightarrow>
                     (case timeReTest end of
                        Inl e \<Rightarrow> Inl e
                      | Inr False \<Rightarrow> Inr entry
                      | Inr True \<Rightarrow> convertMatched wall entry date start end)))"

fun normalizeEntries :: "zone \<Rightarrow> jsval list \<Rightarrow> js_error + jsval list" where
  "normalizeEntries wall [] = Inr []"
| "normalizeEntries wall (entry # rest) =
     (case normalizeEntry wall entry of
        Inl e \<Rightarrow> Inl e
      | Inr item \<Rightarrow>
          (case normalizeEntries wall rest of
             Inl e \<Rightarrow> Inl e
           | Inr items \<Rightarrow> Inr (item # items)))"

subsection \<open>\<^verbatim>\<open>extractGroupsWithIso\<close>\<close>

text \<open>The loop \<^verbatim>\<open>for (const k of keys)\<close> over the keys of \<open>data\<close>, building \<open>out\<close>.\<close>

fun groupsLoop :: "zone \<Rightarrow> props \<Rightarrow> jstring list \<Rightarrow> props \<Rightarrow> js_error + props" where
  "groupsLoop wall data [] out = Inr out"
| "groupsLoop wall data (k # keys) out =
     (if \<not> groupKeyRe k then groupsLoop wall data keys out
      else
        (case map_of data k of
           Some (JArr v) \<Rightarrow>
             (case normalizeEntries wall v of
                Inl e \<Rightarrow> Inl e
              | Inr items \<Rightarrow> groupsLoop wall data keys (putProp k (JArr items) out))
         | Some v \<Rightarrow> groupsLoop wall data keys (putProp k v out)
         | None \<Rightarrow> groupsLoop wall data keys out))"

text \<open>The result is \<^verbatim>\<open>null\<close> for a value that is no object and when no key was kept.\<close>

definition extractGroupsWithIso :: "zone \<Rightarrow> jsval \<Rightarrow> js_error + jsval" where
  "extractGroupsWithIso wall data =
     (case data of
        JObj ps \<Rightarrow>
          (case groupsLoop wall ps (map fst ps) [] of
             Inl e \<Rightarrow> Inl e
           | Inr out \<Rightarrow> Inr (if out = [] then JNull else JObj out))
      | _ \<Rightarrow> Inr JNull)"

subsection \<open>\<^verbatim>\<open>normalize\<close>\<close>

text \<open>A string argument that may be \<^verbatim>\<open>null\<close>, under \<^verbatim>\<open>x || null\<close>: the empty string is
  falsy.\<close>

definition strOrNull :: "jstring option \<Rightarrow> jsval" where
  "strOrNull u = (case u of None \<Rightarrow> JNull | Some s \<Rightarrow> if s = [] then JNull else JStr s)"

text \<open>\<^verbatim>\<open>Object.prototype.hasOwnProperty.call(rawObj, 'data') ? rawObj.data : undefined\<close>;
  the call throws on \<^verbatim>\<open>null\<close>.\<close>

definition ownData :: "jsval \<Rightarrow> js_error + jsval option" where
  "ownData rawObj =
     (case rawObj of
        JNull \<Rightarrow> Inl (TypeError (js ''Cannot convert undefined or null to object''))
      | JObj ps \<Rightarrow> Inr (map_of ps (js ''data''))
      | _ \<Rightarrow> Inr None)"

definition freshDocument ::
  "jstring \<Rightarrow> jstring \<Rightarrow> jstring option \<Rightarrow> jsval \<Rightarrow> jsval \<Rightarrow> bool \<Rightarrow> jsval" where
  "freshDocument now regionId upstream dataOut dataEmptyReason rawFactIncluded =
     JObj [(js ''regionId'', JStr regionId),
           (js ''regionName'', JNull),
           (js ''regionType'', JNull),
           (js ''lastUpdated'', JStr now),
           (js ''data'', dataOut),
           (js ''lastUpdateStatus'',
              JObj [(js ''status'', JStr (js ''parsed'')), (js ''ok'', JBool True),
                    (js ''code'', JNum (Finite 200)), (js ''message'', JNull), (js ''at'', JStr now),
                    (js ''attempt'', JNum (Finite 1))]),
           (js ''meta'',
              JObj [(js ''schemaVersion'', JStr (js ''1.0.0'')),
                    (js ''fileCreated'', JStr now),
                    (js ''timezone'', JStr (js ''Europe/Kyiv'')),
                    (js ''source'',
                       JObj [(js ''type'', JStr (js ''proxy'')),
                             (js ''upstream'', strOrNull upstream),
                             (js ''notes'',
                                JStr (js ''Extracted from DisconSchedule.fact in upstream HTML''))]),
                    (js ''ttlSeconds'', JNum (Finite 300)),
                    (js ''nextScheduledFetch'', JNull),
                    (js ''etag'', JNull),
                    (js ''contentHash'', JNull),
                    (js ''dataEmpty'', JBool False),
                    (js ''dataEmptyReason'', dataEmptyReason),
                    (js ''rawFactIncluded'', JBool rawFactIncluded)])]"

text \<open>
  \<^verbatim>\<open>normalize(regionId, upstream, rawObj)\<close>.  Its first part computes the three
  variables \<^verbatim>\<open>dataOut\<close>, \<^verbatim>\<open>dataEmptyReason\<close> and the flag \<^verbatim>\<open>dataField === undefined\<close>; its
  second part is the object literal, with the clock reading \<open>now\<close> of its first line.
\<close>

definition storedData :: "zone \<Rightarrow> jsval \<Rightarrow> js_error + (jsval \<times> jsval \<times> bool)" where
  "storedData wall rawObj =
     (case ownData rawObj of
        Inl e \<Rightarrow> Inl e
      | Inr dataField \<Rightarrow>
          if dataField \<noteq> None \<and> dataField \<noteq> Some JNull then
            (case extractGroupsWithIso wall (valueOrNull dataField) of
               Inl e \<Rightarrow> Inl e
             | Inr groups \<Rightarrow>
                 if truthy groups then Inr (groups, JNull, False)
                 else Inr (valueOrNull dataField,
                           JStr (js ''stored-as-is-unrecognized-structure''), False))
          else Inr (rawObj, JStr (js ''no-data-field-present''), dataField = None))"

definition normalize ::
  "zone \<Rightarrow> jstring \<Rightarrow> jstring \<Rightarrow> jstring option \<Rightarrow> jsval \<Rightarrow> js_error + jsval" where
  "normalize wall now regionId upstream rawObj =
     (case storedData wall rawObj of
        Inl e \<Rightarrow> Inl e
      | Inr (dataOut, dataEmptyReason, rawFactIncluded) \<Rightarrow>
          Inr (freshDocument now regionId upstream dataOut dataEmptyReason rawFactIncluded))"

section \<open>The document merger\<close>

text \<open>\<^verbatim>\<open>loadExisting\<close>: the text of the output file, \<open>None\<close> when there is no such file;
  a text that \<^verbatim>\<open>JSON.parse\<close> rejects gives \<^verbatim>\<open>null\<close> like a missing file.\<close>

definition loadExisting :: "jstring option \<Rightarrow> jsval option" where
  "loadExisting file = (case file of None \<Rightarrow> None | Some text \<Rightarrow> jsonParse text)"

text \<open>A region identifier or URL under \<^verbatim>\<open>x || y\<close>: the empty string is falsy.\<close>

definition strOpt :: "jstring \<Rightarrow> jsval option" where
  "strOpt s = (if s = [] then None else Some (JStr s))"

definition upstreamOpt :: "jstring option \<Rightarrow> jsval option" where
  "upstreamOpt u = (case u of None \<Rightarrow> None | Some s \<Rightarrow> strOpt s)"

text \<open>The minimal template of \<^verbatim>\<open>loadTemplateBase\<close>, used when \<^verbatim>\<open>data/_template.json\<close>
  cannot be read or parsed.\<close>

definition fallbackTemplate :: "jstring \<Rightarrow> jstring \<Rightarrow> jstring option \<Rightarrow> jsval" where
  "fallbackTemplate now regionId upstream =
     JObj [(js ''regionId'', valueOrNull (strOpt regionId)),
           (js ''regionName'', JNull),
           (js ''regionType'', JNull),
           (js ''lastUpdated'', JNull),
           (js ''data'', JArr []),
           (js ''lastUpdateStatus'',
              JObj [(js ''status'', JStr (js ''idle'')), (js ''ok'', JBool True),
                    (js ''code'', JNull), (js ''message'', JNull), (js ''at'', JNull),
                    (js ''attempt'', JNum (Finite 0))]),
           (js ''meta'',
              JObj [(js ''schemaVersion'', JStr (js ''1.0.0'')),
                    (js ''fileCreated'', JStr now),
                    (js ''timezone'', JStr (js ''Europe/Kyiv'')),
                    (js ''source'',
                       JObj [(js ''type'', JStr (js ''proxy'')),
                             (js ''upstream'', valueOrNull (upstreamOpt upstream)),
                             (js ''notes'', JStr (js ''Initialized by parser''))]),
                    (js ''ttlSeconds'', JNum (Finite 300)),
                    (js ''nextScheduledFetch'', JNull),
                    (js ''etag'', JNull),
                    (js ''contentHash'', JNull),
                    (js ''dataEmpty'', JBool True),
                    (js ''dataEmptyReason'', JStr (js ''initialized''))])]"

text \<open>
  \<^verbatim>\<open>loadTemplateBase(regionId, upstream)\<close> with its clock reading \<open>now\<close>; \<open>tplFile\<close> is the
  text of \<^verbatim>\<open>data/_template.json\<close>, a file of the deployment that is a parameter here.
  The first assignment throws when the file holds \<^verbatim>\<open>null\<close>.
\<close>

definition applyTemplateSource :: "jsval \<Rightarrow> jstring option \<Rightarrow> jsval" where
  "applyTemplateSource template upstream =
     (case getProp template (js ''meta'') of
        None \<Rightarrow> template
      | Some meta \<Rightarrow>
          (case getProp meta (js ''source'') of
             None \<Rightarrow> template
           | Some source \<Rightarrow>
               if truthy meta \<and> truthy source
               then setProp template (js ''meta'')
                      (setProp meta (js ''source'')
                         (setProp source (js ''upstream'')
                            (valueOrNull (orElse (orElse (upstreamOpt upstream)
                               (getProp source (js ''upstream''))) (Some JNull)))))
               else template))"

definition applyTemplateCreated :: "jsval \<Rightarrow> jstring \<Rightarrow> jsval" where
  "applyTemplateCreated template now =
     (case getProp template (js ''meta'') of
        None \<Rightarrow> template
      | Some meta \<Rightarrow>
          if truthy meta \<and> \<not> truthyOpt (getProp meta (js ''fileCreated''))
          then setProp template (js ''meta'') (setProp meta (js ''fileCreated'') (JStr now))
          else template)"

definition loadTemplateBase ::
  "jstring option \<Rightarrow> jstring \<Rightarrow> jstring \<Rightarrow> jstring option \<Rightarrow> js_error + jsval" where
  "loadTemplateBase tplFile now regionId upstream =
     (let template = (case loadExisting tplFile of
                        None \<Rightarrow> fallbackTemplate now regionId upstream
                      | Some t \<Rightarrow> t)
      in if template = JNull then
           Inl (TypeError (if regionId = []
                           then js ''Cannot read properties of null (reading 'regionId')''
                           else js ''Cannot set properties of null (setting 'regionId')''))
         else
           Inr (applyTemplateCreated
                  (applyTemplateSource
                     (setProp template (js ''regionId'')
                        (valueOrNull (orElse (orElse (strOpt regionId)
                           (getProp template (js ''regionId''))) (Some JNull))))
                     upstream)
                  now))"

text \<open>The status object an error writes.\<close>

definition errorStatus :: "rat \<Rightarrow> jstring \<Rightarrow> jstring \<Rightarrow> jsnumber \<Rightarrow> jsval" where
  "errorStatus code message now attempt =
     JObj [(js ''status'', JStr (js ''error'')), (js ''ok'', JBool False),
           (js ''code'', JNum (Finite code)), (js ''message'', JStr message), (js ''at'', JStr now),
           (js ''attempt'', JNum attempt)]"

text \<open>\<^verbatim>\<open>(x.lastUpdateStatus && typeof x.lastUpdateStatus.attempt === 'number')
  ? x.lastUpdateStatus.attempt : 0\<close>.\<close>

definition prevAttempt :: "jsval option \<Rightarrow> jsnumber" where
  "prevAttempt x =
     (case getPropOpt x (js ''lastUpdateStatus'') of
        None \<Rightarrow> Finite 0
      | Some st \<Rightarrow>
          if \<not> truthy st then Finite 0
          else (case getProp st (js ''attempt'') of Some (JNum n) \<Rightarrow> n | _ \<Rightarrow> Finite 0))"

text \<open>
  The block \<^verbatim>\<open>if (upstream) { base.meta.source = base.meta.source || { type: 'proxy' };
  base.meta.source.upstream = upstream; }\<close> for a truthy \<open>meta\<close>.  On an object the two
  assignments take effect.  On an array they create a named property that the JSON text
  does not show.  On a string, number or boolean the first assignment is lost, the
  second one reads \<^verbatim>\<open>undefined\<close> and throws.
\<close>

definition setUpstream :: "jsval \<Rightarrow> jstring \<Rightarrow> js_error + jsval" where
  "setUpstream meta upstream =
     (case meta of
        JObj ps \<Rightarrow>
          Inr (setProp meta (js ''source'')
                 (setProp (valueOrNull (orElse (getProp meta (js ''source''))
                             (Some (JObj [(js ''type'', JStr (js ''proxy''))]))))
                    (js ''upstream'') (JStr upstream)))
      | JArr xs \<Rightarrow> Inr meta
      | _ \<Rightarrow> Inl (TypeError (js ''Cannot set properties of undefined (setting 'upstream')'')))"

text \<open>The block \<^verbatim>\<open>if (base.meta) { ... }\<close>.\<close>

definition updateMeta :: "jsval \<Rightarrow> jstring \<Rightarrow> jstring option \<Rightarrow> js_error + jsval" where
  "updateMeta base now upstream =
     (case getProp base (js ''meta'') of
        None \<Rightarrow> Inr base
      | Some meta \<Rightarrow>
          if \<not> truthy meta then Inr base
          else
            let meta1 = (if \<not> truthyOpt (getProp meta (js ''fileCreated''))
                         then setProp meta (js ''fileCreated'') (JStr now) else meta)
            in (case upstream of
                  None \<Rightarrow> Inr (setProp base (js ''meta'') meta1)
                | Some u \<Rightarrow>
                    if u = [] then Inr (setProp base (js ''meta'') meta1)
                    else (case setUpstream meta1 u of
                            Inl e \<Rightarrow> Inl e
                          | Inr meta2 \<Rightarrow> Inr (setProp base (js ''meta'') meta2))))"

text \<open>The rest of \<^verbatim>\<open>updateStatusOnError\<close> once \<open>base\<close> is chosen; \<^verbatim>\<open>prevAttempt + 1\<close> is
  the sum of two doubles.\<close>

definition markError ::
  "jsval \<Rightarrow> jstring \<Rightarrow> jstring option \<Rightarrow> rat \<Rightarrow> jstring \<Rightarrow> js_error + jsval" where
  "markError base now upstream code message =
     updateMeta
       (setProp base (js ''lastUpdateStatus'')
          (errorStatus code message now (numAdd (prevAttempt (Some base)) (Finite 1))))
       now upstream"

text \<open>
  \<^verbatim>\<open>updateStatusOnError(existingObj, regionId, upstream, code, message)\<close>.  The clock is
  read once at the first line (\<open>nowAt k\<close>) and once more inside \<^verbatim>\<open>loadTemplateBase\<close> when
  \<open>existingObj\<close> is falsy.  An exception comes with the number of clock readings made so
  far.
\<close>

definition updateStatusOnError ::
  "jstring option \<Rightarrow> (nat \<Rightarrow> jstring) \<Rightarrow> nat \<Rightarrow> jsval option \<Rightarrow> jstring \<Rightarrow> jstring option
     \<Rightarrow> rat \<Rightarrow> jstring \<Rightarrow> (js_error \<times> nat) + jsval" where
  "updateStatusOnError tplFile nowAt k existingObj regionId upstream code message =
     (case (if truthyOpt existingObj then existingObj else None) of
        Some base \<Rightarrow>
          (case markError base (nowAt k) upstream code message of
             Inl e \<Rightarrow> Inl (e, k + 1)
           | Inr doc \<Rightarrow> Inr doc)
      | None \<Rightarrow>
          (case loadTemplateBase tplFile (nowAt (k + 1)) regionId upstream of
             Inl e \<Rightarrow> Inl (e, k + 2)
           | Inr base \<Rightarrow>
               (case markError base (nowAt k) upstream code message of
                  Inl e \<Rightarrow> Inl (e, k + 2)
                | Inr doc \<Rightarrow> Inr doc)))"

section \<open>The invocation: \<^verbatim>\<open>parseArgs\<close>, \<^verbatim>\<open>main\<close> and the module entry\<close>

record args =
  region :: "jstring option"
  inputPath :: "jstring option"
  outputPath :: "jstring option"
  upstream :: "jstring option"
  pretty :: bool

definition noArgs :: args where
  "noArgs = \<lparr>region = None, inputPath = None, outputPath = None, upstream = None, pretty = False\<rparr>"

text \<open>The loop of \<^verbatim>\<open>parseArgs\<close> from index 2 on; \<^verbatim>\<open>argv[++i]\<close> past the end is
  \<^verbatim>\<open>undefined\<close>.\<close>

fun parseLoop :: "jstring list \<Rightarrow> args \<Rightarrow> args" where
  "parseLoop [] acc = acc"
| "parseLoop (a # rest) acc =
     (if a = js ''--region'' then
        (case rest of [] \<Rightarrow> acc\<lparr>region := None\<rparr>
         | v # tail \<Rightarrow> parseLoop tail (acc\<lparr>region := Some v\<rparr>))
      else if a = js ''--in'' then
        (case rest of [] \<Rightarrow> acc\<lparr>inputPath := None\<rparr>
         | v # tail \<Rightarrow> parseLoop tail (acc\<lparr>inputPath := Some v\<rparr>))
      else if a = js ''--out'' then
        (case rest of [] \<Rightarrow> acc\<lparr>outputPath := None\<rparr>
         | v # tail \<Rightarrow> parseLoop tail (acc\<lparr>outputPath := Some v\<rparr>))
      else if a = js ''--upstream'' then
        (case rest of [] \<Rightarrow> acc\<lparr>upstream := None\<rparr>
         | v # tail \<Rightarrow> parseLoop tail (acc\<lparr>upstream := Some v\<rparr>))
      else if a = js ''--pretty'' then parseLoop rest (acc\<lparr>pretty := True\<rparr>)
      else parseLoop rest acc)"

definition parseArgs :: "jstring list \<Rightarrow> args" where
  "parseArgs argv = parseLoop (drop 2 argv) noArgs"

text \<open>
  What an invocation finds outside the script: the text of the input file and of the
  output file (\<open>None\<close> when the file does not exist), the text of
  \<^verbatim>\<open>data/_template.json\<close>, the successive readings of the clock (\<open>clock k\<close> is the time
  value that the call number \<open>k\<close> of \<^verbatim>\<open>isoNow\<close> sees), the time zone data, the evaluator
  behind \<^verbatim>\<open>Function\<close>, and the hash function of the \<^verbatim>\<open>crypto\<close> module.
\<close>

record env =
  inputFile :: "jstring option"
  outputFile :: "jstring option"
  templateFile :: "jstring option"
  clock :: "nat \<Rightarrow> int"
  zoneData :: zone
  hostEval :: evaluator
  sha256 :: "jstring \<Rightarrow> jstring"

text \<open>What an invocation leaves: the exit status of the process and the document it
  handed to \<^verbatim>\<open>JSON.stringify\<close> and wrote to the output path, if it wrote one.\<close>

record outcome =
  exitCode :: int
  written :: "jsval option"

definition isoNow :: "env \<Rightarrow> nat \<Rightarrow> jstring" where
  "isoNow e k = toISOString (clock e k)"

text \<open>\<^verbatim>\<open>x.meta.name = v\<close> on the fresh document, whose \<^verbatim>\<open>meta\<close> is an object.\<close>

definition setMeta :: "jsval \<Rightarrow> jstring \<Rightarrow> jsval \<Rightarrow> jsval" where
  "setMeta doc name v = setProp2 doc (js ''meta'') name v"

text \<open>\<^verbatim>\<open>!data || (Array.isArray(data) ? data.length === 0 : Object.keys(data).length === 0)\<close>;
  a number or boolean has no keys, a string has one key for each code unit.\<close>

definition dataIsEmpty :: "jsval \<Rightarrow> bool" where
  "dataIsEmpty d \<longleftrightarrow>
     \<not> truthy d \<or>
     (case d of JArr xs \<Rightarrow> xs = [] | JObj ps \<Rightarrow> ps = [] | JStr s \<Rightarrow> s = [] | _ \<Rightarrow> True)"

definition parsedStatus :: "jstring \<Rightarrow> jsnumber \<Rightarrow> jsval" where
  "parsedStatus now attempt =
     JObj [(js ''status'', JStr (js ''parsed'')), (js ''ok'', JBool True),
           (js ''code'', JNum (Finite 200)), (js ''message'', JNull), (js ''at'', JStr now),
           (js ''attempt'', JNum attempt)]"

text \<open>The three early exits of \<^verbatim>\<open>main\<close>: load the prior document, mark the error, write,
  \<^verbatim>\<open>process.exit(0)\<close>.\<close>

definition failWith ::
  "env \<Rightarrow> nat \<Rightarrow> jstring \<Rightarrow> jstring option \<Rightarrow> rat \<Rightarrow> jstring \<Rightarrow> (js_error \<times> nat) + outcome" where
  "failWith e k regionId up code message =
     (case updateStatusOnError (templateFile e) (isoNow e) k (loadExisting (outputFile e))
             regionId up code message of
        Inl thrown \<Rightarrow> Inl thrown
      | Inr errObj \<Rightarrow> Inr \<lparr>exitCode = 0, written = Some errObj\<rparr>)"

text \<open>The merge with the prior document after a successful parse (the tail of
  \<^verbatim>\<open>main\<close>); \<open>now\<close> is the reading of \<^verbatim>\<open>main\<close>, \<open>text\<close> the extracted span.\<close>

definition keepCreated :: "jsval option \<Rightarrow> jsval \<Rightarrow> jsval" where
  "keepCreated existing outObj =
     (if truthyOpt existing \<and> truthyOpt (getPropOpt existing (js ''meta''))
      then setMeta outObj (js ''fileCreated'')
             (valueOrNull (orElse (getPropOpt (getPropOpt existing (js ''meta'')) (js ''fileCreated''))
                (getPropOpt (getProp outObj (js ''meta'')) (js ''fileCreated''))))
      else outObj)"

definition setEmptiness :: "jsval \<Rightarrow> jsval" where
  "setEmptiness outObj =
     (let empty = dataIsEmpty (valueOrNull (getProp outObj (js ''data'')));
          doc = setMeta outObj (js ''dataEmpty'') (JBool empty)
      in if empty \<and> \<not> truthyOpt (getPropOpt (getProp doc (js ''meta'')) (js ''dataEmptyReason''))
         then setMeta doc (js ''dataEmptyReason'') (JStr (js ''empty-data-after-parse''))
         else doc)"

definition mergeParsed :: "env \<Rightarrow> jstring \<Rightarrow> jstring \<Rightarrow> jsval \<Rightarrow> jsval" where
  "mergeParsed e now text outObj =
     (let existing = loadExisting (outputFile e);
          doc1 = keepCreated existing outObj;
          doc2 = setProp doc1 (js ''lastUpdateStatus'')
                   (parsedStatus now
                      (numAdd (prevAttempt (if truthyOpt existing then existing else None))
                         (Finite 1)));
          doc3 = setMeta doc2 (js ''contentHash'') (JStr (sha256 e text))
      in setEmptiness doc3)"

text \<open>\<^verbatim>\<open>main\<close> after the argument check.  \<open>Inl\<close> is an exception that leaves \<^verbatim>\<open>main\<close>,
  with the number of clock readings made before it.\<close>

definition mainBody ::
  "env \<Rightarrow> jstring \<Rightarrow> jstring \<Rightarrow> jstring option \<Rightarrow> (js_error \<times> nat) + outcome" where
  "mainBody e regionId inPath up =
     (case inputFile e of
        None \<Rightarrow> failWith e 0 regionId up 404 (js ''Input not found: '' @ inPath)
      | Some html \<Rightarrow>
          (case extractFact html of
             Inl err \<Rightarrow>
               failWith e 0 regionId up 422 (extract_message err @ js '' in '' @ inPath)
           | Inr ext \<Rightarrow>
               (case tryParseObject (hostEval e) (jsonLike ext) of
                  Inl message \<Rightarrow>
                    failWith e 0 regionId up 422 (message @ js '' in '' @ inPath)
                | Inr (val, method) \<Rightarrow>
                    (case normalize (zoneData e) (isoNow e 1) regionId up val of
                       Inl thrown \<Rightarrow> Inl (thrown, 2)
                     | Inr outObj \<Rightarrow>
                         Inr \<lparr>exitCode = 0,
                              written = Some (mergeParsed e (isoNow e 0) (jsonLike ext) outObj)\<rparr>))))"

text \<open>A present argument.\<close>

definition valueOrEmpty :: "jstring option \<Rightarrow> jstring" where
  "valueOrEmpty x = (case x of None \<Rightarrow> [] | Some s \<Rightarrow> s)"

text \<open>\<^verbatim>\<open>args.upstream || null\<close>.\<close>

definition upstreamOf :: "args \<Rightarrow> jstring option" where
  "upstreamOf a = (case upstream a of None \<Rightarrow> None | Some u \<Rightarrow> if u = [] then None else Some u)"

definition missingArg :: "jstring option \<Rightarrow> bool" where
  "missingArg x \<longleftrightarrow> (case x of None \<Rightarrow> True | Some s \<Rightarrow> s = [])"

text \<open>
  The module entry: \<^verbatim>\<open>main()\<close> inside \<^verbatim>\<open>try\<close>; the usage error exits with status 2
  before anything is read; an exception is caught, the error status 500 is written if
  that is possible, and the process exits with status 0.
\<close>

definition run :: "env \<Rightarrow> jstring list \<Rightarrow> outcome" where
  "run e argv =
     (let a = parseArgs argv in
      if missingArg (region a) \<or> missingArg (inputPath a) \<or> missingArg (outputPath a)
      then \<lparr>exitCode = 2, written = None\<rparr>
      else
        (case mainBody e (valueOrEmpty (region a)) (valueOrEmpty (inputPath a)) (upstreamOf a) of
           Inr result \<Rightarrow> result
         | Inl (thrown, k) \<Rightarrow>
             (case updateStatusOnError (templateFile e) (isoNow e) k
                     (loadExisting (outputFile e)) (valueOrEmpty (region a)) (upstreamOf a) 500
                     (js ''parse_fact crashed: '' @ errorMessage thrown) of
                Inr errObj \<Rightarrow> \<lparr>exitCode = 0, written = Some errObj\<rparr>
              | Inl again \<Rightarrow> \<lparr>exitCode = 0, written = None\<rparr>)))"

section \<open>Vocabulary of the claims\<close>

text \<open>The fields of a document that the claims name: a top-level field, a field of
  \<^verbatim>\<open>meta\<close>, a field of \<^verbatim>\<open>lastUpdateStatus\<close>.\<close>

definition field :: "jstring \<Rightarrow> jsval \<Rightarrow> jsval option" where
  "field name d = getProp d name"

definition metaField :: "jstring \<Rightarrow> jsval \<Rightarrow> jsval option" where
  "metaField name d = getPropOpt (getProp d (js ''meta'')) name"

definition statusField :: "jstring \<Rightarrow> jsval \<Rightarrow> jsval option" where
  "statusField name d = getPropOpt (getProp d (js ''lastUpdateStatus'')) name"

text \<open>A prior document: a JSON object whose \<^verbatim>\<open>meta\<close>, if it has one, is an object.\<close>

definition docShaped :: "jsval \<Rightarrow> bool" where
  "docShaped d \<longleftrightarrow>
     isObject d \<and> (case getProp d (js ''meta'') of None \<Rightarrow> True | Some m \<Rightarrow> isObject m)"

text \<open>The attempt number a document records; zero when it records none.\<close>

definition attemptOf :: "jsval \<Rightarrow> jsnumber" where
  "attemptOf d =
     (case statusField (js ''attempt'') d of Some (JNum n) \<Rightarrow> n | _ \<Rightarrow> Finite 0)"

text \<open>The attempt number recorded in the output file that an invocation finds; zero when
  there is no file or the file does not parse.\<close>

definition priorAttempt :: "env \<Rightarrow> jsnumber" where
  "priorAttempt e =
     (case loadExisting (outputFile e) of None \<Rightarrow> Finite 0 | Some d \<Rightarrow> attemptOf d)"

text \<open>The command line names a region, an input path and an output path.\<close>

definition validArgs :: "jstring list \<Rightarrow> bool" where
  "validArgs argv \<longleftrightarrow>
     \<not> missingArg (region (parseArgs argv)) \<and> \<not> missingArg (inputPath (parseArgs argv))
     \<and> \<not> missingArg (outputPath (parseArgs argv))"

text \<open>A processing stage fails: the input file is missing, the locator fails, or both
  parsing strategies fail.\<close>

definition stageFails :: "env \<Rightarrow> bool" where
  "stageFails e \<longleftrightarrow>
     (case inputFile e of
        None \<Rightarrow> True
      | Some html \<Rightarrow>
          (case extractFact html of
             Inl err \<Rightarrow> True
           | Inr ext \<Rightarrow>
               (case tryParseObject (hostEval e) (jsonLike ext) of
                  Inl message \<Rightarrow> True
                | Inr parsed \<Rightarrow> False)))"

text \<open>Locating and parsing succeed: the extracted span and the parsed value.\<close>

definition parsedValue :: "env \<Rightarrow> (jstring \<times> jsval) option" where
  "parsedValue e =
     (case inputFile e of
        None \<Rightarrow> None
      | Some html \<Rightarrow>
          (case extractFact html of
             Inl err \<Rightarrow> None
           | Inr ext \<Rightarrow>
               (case tryParseObject (hostEval e) (jsonLike ext) of
                  Inl message \<Rightarrow> None
                | Inr (val, method) \<Rightarrow> Some (jsonLike ext, val))))"

text \<open>A document with a \<^verbatim>\<open>meta\<close> object.\<close>

definition hasMeta :: "jsval \<Rightarrow> bool" where
  "hasMeta d \<longleftrightarrow> isObject d \<and> (case getProp d (js ''meta'') of None \<Rightarrow> False | Some m \<Rightarrow> isObject m)"

text \<open>The second invocation reads the same input with the same host, and its output file
  parses to the document the first one wrote.  (\<^verbatim>\<open>JSON.stringify\<close> writes every value of
  a document so that it parses back, except \<^verbatim>\<open>NaN\<close> and the infinities, for which it
  writes \<^verbatim>\<open>null\<close>.)\<close>

definition rerunOf :: "env \<Rightarrow> env \<Rightarrow> jstring list \<Rightarrow> bool" where
  "rerunOf e2 e1 argv \<longleftrightarrow>
     inputFile e2 = inputFile e1 \<and> hostEval e2 = hostEval e1 \<and> zoneData e2 = zoneData e1 \<and>
     sha256 e2 = sha256 e1 \<and> loadExisting (outputFile e2) = written (run e1 argv)"

text \<open>The invocation parses its input: locating, parsing and normalizing succeed.\<close>

definition parsesInput :: "env \<Rightarrow> bool" where
  "parsesInput e \<longleftrightarrow>
     (case parsedValue e of
        None \<Rightarrow> False
      | Some (blob, val) \<Rightarrow> (case storedData (zoneData e) val of Inl thrown \<Rightarrow> False | Inr stored \<Rightarrow> True))"

text \<open>Normalization throws: the input is located and parsed, and \<^verbatim>\<open>normalize\<close> raises
  an exception, which leaves \<^verbatim>\<open>main\<close>.\<close>

definition crashes :: "env \<Rightarrow> bool" where
  "crashes e \<longleftrightarrow>
     (case parsedValue e of
        None \<Rightarrow> False
      | Some (blob, val) \<Rightarrow> (case storedData (zoneData e) val of Inl thrown \<Rightarrow> True | Inr stored \<Rightarrow> False))"

text \<open>The value an error status is written into is a document: the prior value when the
  output file holds a truthy one, else the template of the deployment, and the built-in
  template when there is no template file.\<close>

definition baselineShaped :: "env \<Rightarrow> bool" where
  "baselineShaped e \<longleftrightarrow>
     (case (if truthyOpt (loadExisting (outputFile e)) then loadExisting (outputFile e) else None) of
        Some prior \<Rightarrow> docShaped prior
      | None \<Rightarrow> (case loadExisting (templateFile e) of None \<Rightarrow> True | Some t \<Rightarrow> docShaped t))"

text \<open>A document that records when it was created.\<close>

definition created :: "jsval \<Rightarrow> bool" where
  "created d \<longleftrightarrow> hasMeta d \<and> truthyOpt (metaField (js ''fileCreated'') d)"

text \<open>
  A sequence of invocations for one output file that holds the document \<open>d\<close> at the
  start: every invocation has a valid command line and finds in the output file the
  document that the last writing invocation before it wrote (an invocation that writes
  nothing leaves the file as it is).  \<open>replay\<close> lists the documents written.
\<close>

fun linked :: "jsval \<Rightarrow> (env \<times> jstring list) list \<Rightarrow> bool" where
  "linked d [] = True"
| "linked d ((e, argv) # rest) =
     (validArgs argv \<and> loadExisting (outputFile e) = Some d \<and>
      (case written (run e argv) of None \<Rightarrow> linked d rest | Some d' \<Rightarrow> linked d' rest))"

fun replay :: "jsval \<Rightarrow> (env \<times> jstring list) list \<Rightarrow> jsval list" where
  "replay d [] = []"
| "replay d ((e, argv) # rest) =
     (case written (run e argv) of None \<Rightarrow> replay d rest | Some d' \<Rightarrow> d' # replay d' rest)"

section \<open>Concrete invocations\<close>

text \<open>The command line of the batch driver for the region \<^verbatim>\<open>kyiv\<close>.\<close>

definition kyivArgv :: "jstring list" where
  "kyivArgv =
     [js ''node'', js ''scripts/parse_fact.js'', js ''--region'', js ''kyiv'',
      js ''--in'', js ''outputs/kyiv.html'', js ''--out'', js ''data/kyiv.json'',
      js ''--upstream'', [], js ''--pretty'']"

text \<open>
  An environment with the given input and output files: no template file, a clock at
  2025-03-30T02:00:00Z that advances by a millisecond with every reading after \<open>t0\<close>, the
  fixed zone UTC+2, an evaluator that rejects every text with the message of a
  \<^verbatim>\<open>SyntaxError\<close>, and a stand-in for the hash function.
\<close>

definition rejectAll :: evaluator where
  "rejectAll src = Inl (js ''Unexpected token'')"

definition lengthHash :: "jstring \<Rightarrow> jstring" where
  "lengthHash s = natDigits (length s)"

definition testEnv :: "int \<Rightarrow> jstring option \<Rightarrow> jstring option \<Rightarrow> env" where
  "testEnv t0 inFile outFile =
     \<lparr>inputFile = inFile, outputFile = outFile, templateFile = None,
      clock = (\<lambda>k. t0 + int k), zoneData = fixedZone 120, hostEval = rejectAll,
      sha256 = lengthHash\<rparr>"

text \<open>A page without the marker, as an anti-bot wall serves it.\<close>

definition blockedHtml :: jstring where
  "blockedHtml = js ''<html><body>Request unsuccessful.</body></html>''"

text \<open>A small prior document.\<close>

definition priorText :: jstring where
  \<open>priorText = js ''{"regionId":"kyiv","lastUpdated":"2025-03-29T10:00:00.000Z","data":{"GPV1.1":[]},"lastUpdateStatus":{"status":"parsed","ok":true,"attempt":3},"meta":{"fileCreated":"2025-03-01T08:00:00.000Z","contentHash":"abc","source":{"type":"proxy"}}}''\<close>

definition priorDoc :: jsval where
  "priorDoc =
     JObj [(js ''regionId'', JStr (js ''kyiv'')),
           (js ''lastUpdated'', JStr (js ''2025-03-29T10:00:00.000Z'')),
           (js ''data'', JObj [(js ''GPV1.1'', JArr [])]),
           (js ''lastUpdateStatus'',
              JObj [(js ''status'', JStr (js ''parsed'')), (js ''ok'', JBool True),
                    (js ''attempt'', JNum (Finite 3))]),
           (js ''meta'',
              JObj [(js ''fileCreated'', JStr (js ''2025-03-01T08:00:00.000Z'')),
                    (js ''contentHash'', JStr (js ''abc'')),
                    (js ''source'', JObj [(js ''type'', JStr (js ''proxy''))])])]"

text \<open>The concrete scenario of the specification: a page whose fact object has the
  group at its top level.  A first invocation without a prior document, the document it
  writes, the JSON text of that document, and a second invocation fifteen minutes later
  that finds this text in the output file.\<close>

definition scenarioHtml :: jstring where
  \<open>scenarioHtml = js ''<script>DisconSchedule.fact = {"GPV1.1":[{"date":"2025-03-30","start":"2:00","end":"4:00"}]}; </script>''\<close>

definition firstRunEnv :: env where
  "firstRunEnv = testEnv 1743300000000 (Some scenarioHtml) None"

definition firstRunDoc :: jsval where
  "firstRunDoc =
     JObj [(js ''regionId'', JStr (js ''kyiv'')),
           (js ''regionName'', JNull),
           (js ''regionType'', JNull),
           (js ''lastUpdated'', JStr (js ''2025-03-30T02:00:00.001Z'')),
           (js ''data'',
              JObj [(js ''GPV1.1'',
                     JArr [JObj [(js ''date'', JStr (js ''2025-03-30'')),
                                 (js ''start'', JStr (js ''2:00'')),
                                 (js ''end'', JStr (js ''4:00''))]])]),
           (js ''lastUpdateStatus'',
              JObj [(js ''status'', JStr (js ''parsed'')), (js ''ok'', JBool True),
                    (js ''code'', JNum (Finite 200)), (js ''message'', JNull),
                    (js ''at'', JStr (js ''2025-03-30T02:00:00.000Z'')),
                    (js ''attempt'', JNum (Finite 1))]),
           (js ''meta'',
              JObj [(js ''schemaVersion'', JStr (js ''1.0.0'')),
                    (js ''fileCreated'', JStr (js ''2025-03-30T02:00:00.001Z'')),
                    (js ''timezone'', JStr (js ''Europe/Kyiv'')),
                    (js ''source'',
                       JObj [(js ''type'', JStr (js ''proxy'')),
                             (js ''upstream'', JNull),
                             (js ''notes'',
                                JStr (js ''Extracted from DisconSchedule.fact in upstream HTML''))]),
                    (js ''ttlSeconds'', JNum (Finite 300)),
                    (js ''nextScheduledFetch'', JNull),
                    (js ''etag'', JNull),
                    (js ''contentHash'', JStr (js ''62'')),
                    (js ''dataEmpty'', JBool False),
                    (js ''dataEmptyReason'', JStr (js ''no-data-field-present'')),
                    (js ''rawFactIncluded'', JBool True)])]"

definition firstRunText :: jstring where
  \<open>firstRunText = js ''{"regionId":"kyiv","regionName":null,"regionType":null,"lastUpdated":"2025-03-30T02:00:00.001Z","data":{"GPV1.1":[{"date":"2025-03-30","start":"2:00","end":"4:00"}]},"lastUpdateStatus":{"status":"parsed","ok":true,"code":200,"message":null,"at":"2025-03-30T02:00:00.000Z","attempt":1},"meta":{"schemaVersion":"1.0.0","fileCreated":"2025-03-30T02:00:00.001Z","timezone":"Europe/Kyiv","source":{"type":"proxy","upstream":null,"notes":"Extracted from DisconSchedule.fact in upstream HTML"},"ttlSeconds":300,"nextScheduledFetch":null,"etag":null,"contentHash":"62","dataEmpty":false,"dataEmptyReason":"no-data-field-present","rawFactIncluded":true}}''\<close>

definition secondRunEnv :: env where
  "secondRunEnv = testEnv 1743300900000 (Some scenarioHtml) (Some firstRunText)"

text \<open>The same groups nested under the \<^verbatim>\<open>data\<close> field.\<close>

definition wrappedHtml :: jstring where
  \<open>wrappedHtml = js ''<script>DisconSchedule.fact = {"data":{"GPV1.1":[{"date":"2025-03-30","start":"2:00","end":"4:00"}]}}; </script>''\<close>

text \<open>An entry whose \<^verbatim>\<open>start\<close> is an object with a property named \<^verbatim>\<open>toString\<close>.\<close>

definition oddEntryHtml :: jstring where
  \<open>oddEntryHtml = js ''<script>DisconSchedule.fact = {"data":{"GPV1.1":[{"date":"2025-03-30","start":{"toString":1},"end":"4:00"}]}}; </script>''\<close>

text \<open>
  A fact object that is no JSON text: the key is not quoted and the value is a function
  call.  \<open>callEval\<close> stands for the evaluator of Node.js on the one function body the
  invocation hands to it: \<^verbatim>\<open>Function\<close> compiles the body, the call runs \<^verbatim>\<open>Math.max(1, 2)\<close>
  and returns the object \<^verbatim>\<open>{a: 2}\<close>.
\<close>

definition callHtml :: jstring where
  \<open>callHtml = js ''<script>DisconSchedule.fact = {a: Math.max(1, 2)}; </script>''\<close>

definition callEval :: evaluator where
  "callEval src =
     (if src = [34] @ js ''use strict'' @ [34] @ js ''; return ({a: Math.max(1, 2)});''
      then Inr (JObj [(js ''a'', JNum (Finite 2))])
      else Inl (js ''Unexpected token''))"

text \<open>A fact object without a \<^verbatim>\<open>data\<close> field that holds a group and a key that is no group
  identifier.\<close>

definition mixedHtml :: jstring where
  \<open>mixedHtml = js ''<script>DisconSchedule.fact = {"GPV1.1":[{"date":"2025-03-30","start":"2:00","end":"4:00"}],"updated":"29.03.2025"}; </script>''\<close>

definition mixedValue :: jsval where
  "mixedValue =
     JObj [(js ''GPV1.1'',
            JArr [JObj [(js ''date'', JStr (js ''2025-03-30'')),
                        (js ''start'', JStr (js ''2:00'')),
                        (js ''end'', JStr (js ''4:00''))]]),
           (js ''updated'', JStr (js ''29.03.2025''))]"

text \<open>The JSON text of the document that the invocation on the blocked page writes over
  the small prior document, and the start of a JSON text, as an interrupted write leaves
  it.\<close>

definition afterFailText :: jstring where
  \<open>afterFailText = js ''{"regionId":"kyiv","lastUpdated":"2025-03-29T10:00:00.000Z","data":{"GPV1.1":[]},"lastUpdateStatus":{"status":"error","ok":false,"code":422,"message":"Marker `DisconSchedule.fact =` not found in outputs/kyiv.html","at":"2025-03-30T02:00:00.000Z","attempt":4},"meta":{"fileCreated":"2025-03-01T08:00:00.000Z","contentHash":"abc","source":{"type":"proxy"}}}''\<close>

definition truncatedText :: jstring where
  \<open>truncatedText = js ''{"regionId":"kyiv","lastUpd''\<close>

section \<open>Rounding is exact on the safe integers\<close>

text \<open>
  Every integer of magnitude up to \<open>2^53\<close> is a double, so that a sum of two integers
  is exact as long as it stays in that range.  Beyond it the sum rounds: the double sum
  of \<open>2^53\<close> and one is \<open>2^53\<close> again.
\<close>

lemma bitLength_bounds: "0 < n \<Longrightarrow> 2 ^ (bitLength n - 1) \<le> n \<and> n < 2 ^ bitLength n"
proof (induction n rule: bitLength.induct)
  case (1 n)
  show ?case
  proof (cases "n div 2 = 0")
    case True
    with 1(2) have "n = 1" by (simp add: div_eq_0_iff) 
    then show ?thesis by (simp add: bitLength.simps[of "Suc 0"] bitLength.simps[of 0])
  next
    case False
    then have pos: "0 < n div 2" by simp
    from 1(1)[OF _ pos] 1(2) have ih: "2 ^ (bitLength (n div 2) - 1) \<le> n div 2" "n div 2 < 2 ^ bitLength (n div 2)"
      by auto
    have b: "bitLength n = Suc (bitLength (n div 2))" using 1(2) by (simp add: bitLength.simps[of n])
    have bpos: "0 < bitLength (n div 2)" using pos by (simp add: bitLength.simps[of "n div 2"])
    have "2 * 2 ^ (bitLength (n div 2) - 1) \<le> n" using ih(1) by linarith
    moreover have "2 * 2 ^ (bitLength (n div 2) - 1) = (2::nat) ^ bitLength (n div 2)"
      using bpos by (cases "bitLength (n div 2)") simp_all
    moreover have "n < 2 * 2 ^ bitLength (n div 2)" using ih(2) by linarith
    ultimately show ?thesis unfolding b by simp
  qed
qed

lemma roundHalfEven_int: "roundHalfEven (of_int k) = k"
  by (simp add: roundHalfEven_def)

lemma roundDouble_nat:
  assumes "n \<le> 2 ^ 53"
  shows "roundDouble (of_nat n) = Finite (of_nat n)"
proof (cases "n = 0")
  case True
  then show ?thesis by (simp add: roundDouble_def)
next
  case False
  then have pos: "0 < n" by simp
  define b where "b = bitLength n"
  from bitLength_bounds[OF pos] have bb: "2 ^ (b - 1) \<le> n" "n < 2 ^ b" by (simp_all add: b_def)
  have bpos: "0 < b" using pos by (simp add: b_def bitLength.simps[of n])
  have "(2::nat) ^ (b - 1) \<le> 2 ^ 53" using bb(1) assms by linarith
  then have b54: "b - 1 \<le> 53" by (simp only: power_increasing_iff)
  have a1: "(1::rat) \<le> of_nat n" using pos by simp
  have il: "ilog2 (of_nat n) = int b - 1"
    using a1 by (simp add: ilog2_def b_def)
  define ulp where "ulp = pow2 (int b - 53)"
  have "\<exists>k. (of_nat n :: rat) / ulp = of_int k \<and> 0 < ulp"
  proof (cases "b - 1 \<le> 52")
    case True
    then have u: "ulp = 1 / 2 ^ (53 - b)"
      using bpos unfolding ulp_def pow2_def
      by (auto simp: nat_diff_distrib' algebra_simps intro: arg_cong[where f="\<lambda>x. 2 ^ x"]) 
    have "(of_nat n :: rat) / ulp = of_int (int n * 2 ^ (53 - b))" unfolding u by simp
    moreover have "0 < ulp" unfolding u by simp
    ultimately show ?thesis by blast
  next
    case False
    with b54 have b: "b = 54" by linarith
    then have "n = 2 ^ 53" using bb(1) assms by simp
    moreover have "ulp = 2" unfolding ulp_def b pow2_def by simp
    ultimately have "(of_nat n :: rat) / ulp = of_int (2 ^ 52)" by simp
    moreover have "0 < ulp" using \<open>ulp = 2\<close> by simp
    ultimately show ?thesis by blast
  qed
  then obtain k where k: "(of_nat n :: rat) / ulp = of_int k" and up: "0 < ulp" by blast
  have m: "max (ilog2 (of_nat n)) (- 1022) - 52 = int b - 53" unfolding il by simp
  have v: "of_int k * ulp = (of_nat n :: rat)" using k up by (simp add: field_simps)
  have big: "\<not> pow2 1024 \<le> (of_nat n :: rat)"
  proof -
    have "(of_nat n :: rat) \<le> of_nat (2 ^ 53)" using assms by (simp only: of_nat_le_iff)
    then show ?thesis by (simp add: pow2_def)
  qed
  have "roundDouble (of_nat n) = Finite (of_int (roundHalfEven (of_nat n / ulp)) * ulp)"
    unfolding roundDouble_def Let_def abs_of_nat m ulp_def[symmetric] k roundHalfEven_int v
    using False big by simp
  then show ?thesis unfolding k roundHalfEven_int v .
qed

lemma roundDouble_int:
  assumes "\<bar>m\<bar> \<le> 9007199254740992"
  shows "roundDouble (of_int m) = Finite (of_int m)"
proof -
  have neg: "roundDouble (- r) = numNeg (roundDouble r)" for r
    by (simp add: roundDouble_def Let_def)
  have n: "nat \<bar>m\<bar> \<le> 2 ^ 53" using assms by simp
  from roundDouble_nat[OF n] have p: "roundDouble (of_int \<bar>m\<bar>) = Finite (of_int \<bar>m\<bar>)"
    by simp
  show ?thesis
  proof (cases "0 \<le> m")
    case True
    then show ?thesis using p by simp
  next
    case False
    then have "of_int m = - (of_int \<bar>m\<bar> :: rat)" by simp
    then show ?thesis using p neg[of "of_int \<bar>m\<bar>"] by simp
  qed
qed


lemma roundDouble_numeral:
  "(numeral k :: int) \<le> 9007199254740992 \<Longrightarrow> roundDouble (numeral k) = Finite (numeral k)"
  using roundDouble_int[of "numeral k"] by simp

lemma roundDouble_one: "roundDouble 1 = Finite 1"
  using roundDouble_int[of 1] by simp

lemma floor_rat_numeral: "\<lfloor>(numeral a :: rat) / numeral b\<rfloor> = numeral a div numeral b"
  by (metis floor_divide_of_int_eq of_int_numeral)


lemma roundDouble_zero: "roundDouble 0 = Finite 0"
  by (simp add: roundDouble_def)

lemma numAdd_one_rounds:
  "numAdd (Finite 9007199254740992) (Finite 1) = Finite 9007199254740992"
  by (simp add: roundDouble_def pow2_def ilog2_def roundHalfEven_def bitLength.simps Let_def
      floor_rat_numeral cong: let_weak_cong)

section \<open>Evaluation\<close>

text \<open>
  Concrete instances are evaluated by rewriting with the definitions.  The weak
  congruence rules make the simplifier evaluate the scrutinee of a \<open>case\<close> and the bound
  term of a \<open>let\<close> before it looks at the branches.
\<close>

lemmas eval_cong = let_weak_cong option.case_cong_weak list.case_cong_weak sum.case_cong_weak
  prod.case_cong_weak jsval.case_cong_weak jsnumber.case_cong_weak token.case_cong_weak
  bool.case_cong_weak

lemmas string_eval = js_def isSpace_def isDigit_def slice_def marker_def

lemmas number_eval = roundDouble_numeral roundDouble_one roundDouble_zero numTruthy_def
  numStr_def minusOne_def timeClipNum_def

lemmas numstr_eval = numToString_def positiveToString_def ilog10_def pow10_def digitsFor_def
  shortestDigits.simps formatDigits_def stripZeros_def zeros_def floor_rat_numeral

lemmas json_eval = jsonParse_def lexNumber_def lexUnsigned_def lexInt_def lexFrac_def
  lexExp_def lexExpDigits_def scale10_def lexToken_def isJsonSpace_def consTok_def
  consResult_def putProp_def isArrayIndex_def hexValue_def unescape_def

lemmas date_eval = daysFromCivil_def civilFromDays_def msPerDay_def timeClip_def truncRat_def
  dateUTC_def padStart.simps pad2_def toISOString_def tzOffsetMinutes_def zonedTimeToUtc_def
  formatOffset_def toKyivIso_def fixedZone_def strToNumber_def decimalLiteral_def
  trimSpace_def numOr_def numToString_def intDigits_def natDigits.simps invalidTime_def
  radixLiteral_def nthOpt_def

lemmas norm_eval = isGroupLetter_def digitsDotDigits_def groupKeyRe_def timeRe_def
  timeReTest_def valueOrNull_def firstOf3_def firstOf4_def padHour_def isoItem_def
  convertMatched_def normalizeEntry_def extractGroupsWithIso_def strOrNull_def ownData_def
  freshDocument_def storedData_def normalize_def orElse_def truthyOpt_def getPropOpt_def setProp2_def
  joinWith_def

lemmas main_eval = loadExisting_def strOpt_def upstreamOpt_def fallbackTemplate_def
  applyTemplateSource_def applyTemplateCreated_def loadTemplateBase_def errorStatus_def
  prevAttempt_def setUpstream_def updateMeta_def markError_def updateStatusOnError_def
  noArgs_def parseArgs_def isoNow_def setMeta_def dataIsEmpty_def parsedStatus_def
  failWith_def keepCreated_def setEmptiness_def mergeParsed_def mainBody_def upstreamOf_def
  missingArg_def valueOrEmpty_def run_def extractFact_def tryParseObject_def
  functionBody_def

lemmas claim_eval = field_def metaField_def statusField_def docShaped_def attemptOf_def
  priorAttempt_def
  validArgs_def stageFails_def parsedValue_def hasMeta_def
  rerunOf_def parsesInput_def crashes_def baselineShaped_def created_def

lemmas example_eval = kyivArgv_def rejectAll_def lengthHash_def testEnv_def blockedHtml_def
  priorText_def priorDoc_def scenarioHtml_def firstRunEnv_def firstRunDoc_def
  secondRunEnv_def wrappedHtml_def oddEntryHtml_def callHtml_def callEval_def
  mixedHtml_def mixedValue_def truncatedText_def

lemmas all_eval = string_eval number_eval json_eval date_eval norm_eval main_eval claim_eval example_eval
  Let_def

section \<open>Reading and writing properties\<close>

lemma map_of_replaceProp:
  "map_of (replaceProp k v ps) k' = (if k' = k \<and> map_of ps k \<noteq> None then Some v else map_of ps k')"
  by (induction ps) auto

lemma map_of_insertIndex:
  "map_of ps k = None \<Longrightarrow> map_of (insertIndex k v ps) k' = (if k' = k then Some v else map_of ps k')"
  by (induction ps) (auto split: if_splits)

lemma map_of_append_new:
  "map_of ps k = None \<Longrightarrow> map_of (ps @ [(k, v)]) k' = (if k' = k then Some v else map_of ps k')"
  by (auto simp: map_add_def split: option.splits)

lemma map_of_putProp:
  "map_of (putProp k v ps) k' = (if k' = k then Some v else map_of ps k')"
  unfolding putProp_def
  by (auto simp: map_of_replaceProp map_of_insertIndex map_add_def split: option.splits)

lemma getProp_setProp:
  "isObject x \<Longrightarrow> getProp (setProp x k v) k' = (if k' = k then Some v else getProp x k')"
  by (cases x) (simp_all add: map_of_putProp)

lemma isObject_setProp [simp]: "isObject (setProp x k v) = isObject x"
  by (cases x) simp_all

lemma truthy_isObject: "isObject x \<Longrightarrow> truthy x"
  by (cases x) simp_all

lemma toISOString_nonempty: "toISOString t \<noteq> []"
  by (simp add: toISOString_def Let_def split: prod.splits)

lemma js_inj: "js a = js b \<longleftrightarrow> a = b"
  unfolding js_def by (simp add: inj_map_eq_map inj_def of_char_eq_iff)

lemma prevAttempt_attemptOf: "prevAttempt (Some d) = attemptOf d"
  unfolding prevAttempt_def attemptOf_def statusField_def getPropOpt_def
  by (cases "getProp d (js ''lastUpdateStatus'')"; simp)
     (case_tac a; simp split: option.splits jsval.splits)



lemma updateMeta_shaped:
  assumes "docShaped base"
  shows "\<exists>doc. updateMeta base now up = Inr doc \<and> isObject doc \<and>
     (\<forall>k. k \<noteq> js ''meta'' \<longrightarrow> getProp doc k = getProp base k) \<and>
     (case getProp base (js ''meta'') of None \<Rightarrow> getProp doc (js ''meta'') = None
      | Some m \<Rightarrow> (\<exists>m'. getProp doc (js ''meta'') = Some m' \<and> isObject m' \<and>
          (\<forall>k. k \<noteq> js ''fileCreated'' \<and> k \<noteq> js ''source'' \<longrightarrow> getProp m' k = getProp m k) \<and>
          (truthyOpt (getProp m (js ''fileCreated'')) \<longrightarrow> getProp m' (js ''fileCreated'') = getProp m (js ''fileCreated'')) \<and>
          (\<not> truthyOpt (getProp m (js ''fileCreated'')) \<longrightarrow> getProp m' (js ''fileCreated'') = Some (JStr now))))"
proof (cases "getProp base (js ''meta'')")
  case None
  then show ?thesis using assms by (simp add: updateMeta_def docShaped_def)
next
  case (Some m)
  with assms have om: "isObject m" and ob: "isObject base" by (simp_all add: docShaped_def)
  then obtain ps where m: "m = JObj ps" by (cases m) auto
  define m1 where "m1 = (if \<not> truthyOpt (getProp m (js ''fileCreated''))
                         then setProp m (js ''fileCreated'') (JStr now) else m)"
  have om1: "isObject m1" using om by (simp add: m1_def)
  have fr1: "\<forall>k. k \<noteq> js ''fileCreated'' \<longrightarrow> getProp m1 k = getProp m k"
    using om by (simp add: m1_def getProp_setProp)
  have fc1: "getProp m1 (js ''fileCreated'') =
     (if truthyOpt (getProp m (js ''fileCreated'')) then getProp m (js ''fileCreated'') else Some (JStr now))"
    using om by (simp add: m1_def getProp_setProp)
  have "\<exists>m2. (case up of None \<Rightarrow> Inr (setProp base (js ''meta'') m1)
                | Some u \<Rightarrow> if u = [] then Inr (setProp base (js ''meta'') m1)
                    else (case setUpstream m1 u of Inl e \<Rightarrow> Inl e
                          | Inr meta2 \<Rightarrow> Inr (setProp base (js ''meta'') meta2)))
            = Inr (setProp base (js ''meta'') m2) \<and> isObject m2 \<and>
              (\<forall>k. k \<noteq> js ''source'' \<longrightarrow> getProp m2 k = getProp m1 k)"
  proof (cases "up = None \<or> up = Some []")
    case True
    then show ?thesis using om1 by (auto split: option.splits)
  next
    case False
    then obtain u where u: "up = Some u" "u \<noteq> []" by auto
    obtain qs where q: "m1 = JObj qs" using om1 by (cases m1) auto
    show ?thesis
      unfolding u using u(2) q
      by (auto simp: setUpstream_def map_of_putProp)
  qed
  then obtain m2 where m2':
      "(case up of None \<Rightarrow> Inr (setProp base (js ''meta'') m1)
                | Some u \<Rightarrow> if u = [] then Inr (setProp base (js ''meta'') m1)
                    else (case setUpstream m1 u of Inl e \<Rightarrow> Inl e
                          | Inr meta2 \<Rightarrow> Inr (setProp base (js ''meta'') meta2)))
            = Inr (setProp base (js ''meta'') m2)"
      "isObject m2" "\<forall>k. k \<noteq> js ''source'' \<longrightarrow> getProp m2 k = getProp m1 k"
    by blast
  have um: "updateMeta base now up =
     (case up of None \<Rightarrow> Inr (setProp base (js ''meta'') m1)
                | Some u \<Rightarrow> if u = [] then Inr (setProp base (js ''meta'') m1)
                    else (case setUpstream m1 u of Inl e \<Rightarrow> Inl e
                          | Inr meta2 \<Rightarrow> Inr (setProp base (js ''meta'') meta2)))"
    unfolding updateMeta_def m1_def using Some om by (simp add: truthy_isObject Let_def)
  have m2: "updateMeta base now up = Inr (setProp base (js ''meta'') m2)"
    using um m2'(1) by simp
  note m2 = m2 m2'(2) m2'(3)
  have src_ne: "js ''fileCreated'' \<noteq> js ''source''" by (simp add: js_inj)
  show ?thesis
    using Some m2 ob fr1 fc1 src_ne
    by (auto simp: getProp_setProp)
qed

lemma stageFails_iff: "stageFails e \<longleftrightarrow> parsedValue e = None"
  unfolding stageFails_def parsedValue_def
  by (auto split: option.splits sum.splits)

lemma mainBody_parsed:
  assumes "parsedValue e = Some (blob, val)"
  shows "mainBody e r p up =
     (case normalize (zoneData e) (isoNow e 1) r up val of
        Inl thrown \<Rightarrow> Inl (thrown, 2)
      | Inr outObj \<Rightarrow> Inr \<lparr>exitCode = 0, written = Some (mergeParsed e (isoNow e 0) blob outObj)\<rparr>)"
  using assms unfolding parsedValue_def mainBody_def
  by (auto split: option.splits sum.splits prod.splits)

lemma hasMeta_docShaped: "hasMeta d \<Longrightarrow> docShaped d"
  by (auto simp: hasMeta_def docShaped_def split: option.splits)

lemma hasMeta_setProp:
  "hasMeta d \<Longrightarrow> k \<noteq> js ''meta'' \<Longrightarrow> hasMeta (setProp d k v)"
  by (auto simp: hasMeta_def getProp_setProp split: option.splits)

lemma hasMeta_setMeta: "hasMeta d \<Longrightarrow> hasMeta (setMeta d name v)"
  by (auto simp: hasMeta_def setMeta_def setProp2_def getProp_setProp split: option.splits)

lemma field_setProp:
  "isObject d \<Longrightarrow> field k (setProp d k' v) = (if k = k' then Some v else field k d)"
  by (simp add: field_def getProp_setProp)

lemma field_setMeta:
  "hasMeta d \<Longrightarrow> k \<noteq> js ''meta'' \<Longrightarrow> field k (setMeta d name v) = field k d"
  by (auto simp: hasMeta_def field_def setMeta_def setProp2_def getProp_setProp split: option.splits)

lemma metaField_setMeta:
  "hasMeta d \<Longrightarrow> metaField k (setMeta d name v) = (if k = name then Some v else metaField k d)"
  by (auto simp: hasMeta_def metaField_def setMeta_def setProp2_def getProp_setProp getPropOpt_def
      split: option.splits)

lemma metaField_setProp:
  "isObject d \<Longrightarrow> k' \<noteq> js ''meta'' \<Longrightarrow> metaField k (setProp d k' v) = metaField k d"
  by (simp add: metaField_def getProp_setProp)

lemma statusField_setMeta:
  "hasMeta d \<Longrightarrow> statusField k (setMeta d name v) = statusField k d"
  by (auto simp: hasMeta_def statusField_def setMeta_def setProp2_def getProp_setProp js_inj
      split: option.splits)

lemma statusField_setStatus:
  "isObject d \<Longrightarrow> statusField k (setProp d (js ''lastUpdateStatus'') st) = getProp st k"
  by (simp add: statusField_def getProp_setProp getPropOpt_def)

lemma fresh_hasMeta: "hasMeta (freshDocument n r up d rsn f)"
  by (simp add: hasMeta_def freshDocument_def js_inj)

lemma fresh_fields:
  "field (js ''data'') (freshDocument n r up d rsn f) = Some d"
  "field (js ''lastUpdated'') (freshDocument n r up d rsn f) = Some (JStr n)"
  "metaField (js ''fileCreated'') (freshDocument n r up d rsn f) = Some (JStr n)"
  "metaField (js ''dataEmptyReason'') (freshDocument n r up d rsn f) = Some rsn"
  by (simp_all add: field_def metaField_def freshDocument_def js_inj getPropOpt_def)

lemma keepCreated_props:
  assumes "hasMeta out"
  shows "hasMeta (keepCreated ex out)"
    and "k \<noteq> js ''meta'' \<Longrightarrow> field k (keepCreated ex out) = field k out"
    and "statusField k (keepCreated ex out) = statusField k out"
    and "k \<noteq> js ''fileCreated'' \<Longrightarrow> metaField k (keepCreated ex out) = metaField k out"
    and "metaField (js ''fileCreated'') (keepCreated ex out) =
          (if truthyOpt ex \<and> truthyOpt (getPropOpt ex (js ''meta''))
           then Some (valueOrNull (orElse (getPropOpt (getPropOpt ex (js ''meta'')) (js ''fileCreated''))
                        (metaField (js ''fileCreated'') out)))
           else metaField (js ''fileCreated'') out)"
  using assms unfolding keepCreated_def
  by (simp_all add: hasMeta_setMeta field_setMeta statusField_setMeta metaField_setMeta)
     (simp add: metaField_def)

lemma setEmptiness_props:
  assumes "hasMeta doc"
  shows "hasMeta (setEmptiness doc)"
    and "k \<noteq> js ''meta'' \<Longrightarrow> field k (setEmptiness doc) = field k doc"
    and "statusField k (setEmptiness doc) = statusField k doc"
    and "k \<noteq> js ''dataEmpty'' \<Longrightarrow> k \<noteq> js ''dataEmptyReason'' \<Longrightarrow>
           metaField k (setEmptiness doc) = metaField k doc"
  using assms unfolding setEmptiness_def
  by (simp_all add: Let_def hasMeta_setMeta field_setMeta statusField_setMeta metaField_setMeta)

lemma mergeParsed_props:
  fixes e :: env and now blob :: jstring and out :: jsval
  assumes "hasMeta out"
  defines "ex \<equiv> loadExisting (outputFile e)"
  defines "doc \<equiv> mergeParsed e now blob out"
  shows "hasMeta doc"
    and "k \<noteq> js ''meta'' \<Longrightarrow> k \<noteq> js ''lastUpdateStatus'' \<Longrightarrow> field k doc = field k out"
    and "statusField k doc =
           getProp (parsedStatus now (numAdd (prevAttempt (if truthyOpt ex then ex else None)) (Finite 1))) k"
    and "metaField (js ''contentHash'') doc = Some (JStr (sha256 e blob))"
    and "metaField (js ''fileCreated'') doc =
          (if truthyOpt ex \<and> truthyOpt (getPropOpt ex (js ''meta''))
           then Some (valueOrNull (orElse (getPropOpt (getPropOpt ex (js ''meta'')) (js ''fileCreated''))
                        (metaField (js ''fileCreated'') out)))
           else metaField (js ''fileCreated'') out)"
proof -
  define d1 where "d1 = keepCreated ex out"
  define d2 where "d2 = setProp d1 (js ''lastUpdateStatus'')
     (parsedStatus now (numAdd (prevAttempt (if truthyOpt ex then ex else None)) (Finite 1)))"
  define d3 where "d3 = setMeta d2 (js ''contentHash'') (JStr (sha256 e blob))"
  have doc: "doc = setEmptiness d3"
    unfolding doc_def mergeParsed_def d3_def d2_def d1_def ex_def by (simp add: Let_def)
  have ne: "js ''lastUpdateStatus'' \<noteq> js ''meta''" "js ''contentHash'' \<noteq> js ''dataEmpty''"
    "js ''contentHash'' \<noteq> js ''dataEmptyReason''" "js ''fileCreated'' \<noteq> js ''dataEmpty''"
    "js ''fileCreated'' \<noteq> js ''dataEmptyReason''" "js ''fileCreated'' \<noteq> js ''contentHash''"
    by (simp_all add: js_inj)
  have h1: "hasMeta d1" unfolding d1_def by (rule keepCreated_props(1)[OF assms(1)])
  have o1: "isObject d1" using h1 by (simp add: hasMeta_def)
  have h2: "hasMeta d2" unfolding d2_def using h1 ne(1) by (simp add: hasMeta_setProp)
  have h3: "hasMeta d3" unfolding d3_def using h2 by (simp add: hasMeta_setMeta)
  show "hasMeta doc" unfolding doc using h3 by (rule setEmptiness_props(1))
  show "field k doc = field k out" if "k \<noteq> js ''meta''" "k \<noteq> js ''lastUpdateStatus''"
    using that h3 h2 o1 assms(1)
    by (simp add: doc setEmptiness_props(2) d3_def field_setMeta d2_def field_setProp d1_def
        keepCreated_props(2))
  show "statusField k doc =
           getProp (parsedStatus now (numAdd (prevAttempt (if truthyOpt ex then ex else None)) (Finite 1))) k"
    using h3 h2 o1
    by (simp add: doc setEmptiness_props(3) d3_def statusField_setMeta d2_def statusField_setStatus)
  show "metaField (js ''contentHash'') doc = Some (JStr (sha256 e blob))"
    using h3 h2 ne by (simp add: doc setEmptiness_props(4) d3_def metaField_setMeta)
  show "metaField (js ''fileCreated'') doc =
          (if truthyOpt ex \<and> truthyOpt (getPropOpt ex (js ''meta''))
           then Some (valueOrNull (orElse (getPropOpt (getPropOpt ex (js ''meta'')) (js ''fileCreated''))
                        (metaField (js ''fileCreated'') out)))
           else metaField (js ''fileCreated'') out)"
    using h3 h2 o1 ne assms(1)
    by (simp add: doc setEmptiness_props(4) d3_def metaField_setMeta d2_def metaField_setProp
        d1_def keepCreated_props(5))
qed

lemma isoNow_nonempty: "isoNow e k \<noteq> []"
  by (simp add: isoNow_def toISOString_nonempty)

lemma run_parsed:
  assumes "validArgs argv" "parsedValue e = Some (blob, val)"
    "storedData (zoneData e) val = Inr (d, rsn, f)"
  shows "run e argv = \<lparr>exitCode = 0, written = Some (mergeParsed e (isoNow e 0) blob
           (freshDocument (isoNow e 1) (valueOrEmpty (region (parseArgs argv)))
              (upstreamOf (parseArgs argv)) d rsn f))\<rparr>"
  using assms(1) unfolding run_def validArgs_def
  by (simp add: Let_def mainBody_parsed[OF assms(2)] normalize_def assms(3))


subsection \<open>The concrete scenario\<close>









section \<open>Lemmas on the error path and on the parsed path\<close>

lemma markError_shaped:
  assumes "docShaped base"
  shows "\<exists>doc. markError base now up code msg = Inr doc \<and> docShaped doc \<and>
     getProp doc (js ''lastUpdateStatus'') = Some (errorStatus code msg now (numAdd (attemptOf base) (Finite 1))) \<and>
     (\<forall>k. k \<noteq> js ''lastUpdateStatus'' \<and> k \<noteq> js ''meta'' \<longrightarrow> getProp doc k = getProp base k) \<and>
     (\<forall>k. k \<noteq> js ''fileCreated'' \<and> k \<noteq> js ''source'' \<longrightarrow> metaField k doc = metaField k base) \<and>
     (truthyOpt (metaField (js ''fileCreated'') base) \<longrightarrow>
        metaField (js ''fileCreated'') doc = metaField (js ''fileCreated'') base) \<and>
     (getProp base (js ''meta'') \<noteq> None \<and> \<not> truthyOpt (metaField (js ''fileCreated'') base) \<longrightarrow>
        metaField (js ''fileCreated'') doc = Some (JStr now))"
proof -
  define st where "st = errorStatus code msg now (numAdd (attemptOf base) (Finite 1))"
  define base1 where "base1 = setProp base (js ''lastUpdateStatus'') st"
  have ne: "js ''meta'' \<noteq> js ''lastUpdateStatus''" by (simp add: js_inj)
  have ob: "isObject base" using assms by (simp add: docShaped_def)
  have g1: "getProp base1 k = (if k = js ''lastUpdateStatus'' then Some st else getProp base k)" for k
    unfolding base1_def using ob by (simp add: getProp_setProp)
  have s1: "docShaped base1"
    using assms ne unfolding docShaped_def by (simp add: g1) (simp add: base1_def)
  from updateMeta_shaped[OF s1, of now up] obtain doc where d:
    "updateMeta base1 now up = Inr doc" "isObject doc"
    "\<forall>k. k \<noteq> js ''meta'' \<longrightarrow> getProp doc k = getProp base1 k"
    "(case getProp base1 (js ''meta'') of None \<Rightarrow> getProp doc (js ''meta'') = None
      | Some m \<Rightarrow> (\<exists>m'. getProp doc (js ''meta'') = Some m' \<and> isObject m' \<and>
          (\<forall>k. k \<noteq> js ''fileCreated'' \<and> k \<noteq> js ''source'' \<longrightarrow> getProp m' k = getProp m k) \<and>
          (truthyOpt (getProp m (js ''fileCreated'')) \<longrightarrow> getProp m' (js ''fileCreated'') = getProp m (js ''fileCreated'')) \<and>
          (\<not> truthyOpt (getProp m (js ''fileCreated'')) \<longrightarrow> getProp m' (js ''fileCreated'') = Some (JStr now))))"
    by blast
  have me: "markError base now up code msg = Inr doc"
    unfolding markError_def using d(1) by (simp add: base1_def st_def prevAttempt_attemptOf)
  have gm: "getProp base1 (js ''meta'') = getProp base (js ''meta'')" using ne by (simp add: g1)
  have shaped: "docShaped doc"
    using d(2) d(4) unfolding docShaped_def gm by (auto split: option.splits)
  have lus: "getProp doc (js ''lastUpdateStatus'') = Some st"
    using d(3) ne by (simp add: g1)
  have frame: "\<forall>k. k \<noteq> js ''lastUpdateStatus'' \<and> k \<noteq> js ''meta'' \<longrightarrow> getProp doc k = getProp base k"
    using d(3) by (simp add: g1)
  have mf: "(\<forall>k. k \<noteq> js ''fileCreated'' \<and> k \<noteq> js ''source'' \<longrightarrow> metaField k doc = metaField k base) \<and>
     (truthyOpt (metaField (js ''fileCreated'') base) \<longrightarrow>
        metaField (js ''fileCreated'') doc = metaField (js ''fileCreated'') base) \<and>
     (getProp base (js ''meta'') \<noteq> None \<and> \<not> truthyOpt (metaField (js ''fileCreated'') base) \<longrightarrow>
        metaField (js ''fileCreated'') doc = Some (JStr now))"
    using d(4) unfolding gm metaField_def getPropOpt_def
    by (cases "getProp base (js ''meta'')") (auto simp: truthyOpt_def)
  show ?thesis using me shaped lus frame mf unfolding st_def by blast
qed

lemma stageFails_mainBody:
  assumes "stageFails e"
  shows "\<exists>code msg. (code = 404 \<or> code = 422) \<and> mainBody e r p up = failWith e 0 r up code msg"
  using assms unfolding stageFails_def mainBody_def
  by (auto split: option.splits sum.splits)

lemma failWith_prior:
  assumes "loadExisting (outputFile e) = Some prior" "docShaped prior"
  shows "\<exists>doc. failWith e k r up code msg = Inr \<lparr>exitCode = 0, written = Some doc\<rparr> \<and>
           markError prior (isoNow e k) up code msg = Inr doc"
proof -
  from markError_shaped[OF assms(2)] obtain doc where
    "markError prior (isoNow e k) up code msg = Inr doc" by blast
  moreover have "truthyOpt (Some prior)"
    using assms(2) by (simp add: truthyOpt_def docShaped_def truthy_isObject)
  ultimately show ?thesis
    unfolding failWith_def updateStatusOnError_def using assms(1) by simp
qed

lemma docShaped_setProp:
  "docShaped d \<Longrightarrow> k \<noteq> js ''meta'' \<Longrightarrow> docShaped (setProp d k v)"
  by (simp add: docShaped_def getProp_setProp)

lemma docShaped_setMetaObj:
  "docShaped d \<Longrightarrow> isObject m \<Longrightarrow> docShaped (setProp d (js ''meta'') m)"
  by (simp add: docShaped_def getProp_setProp)

lemma fallback_shaped: "docShaped (fallbackTemplate now r up)"
  by (simp add: fallbackTemplate_def docShaped_def js_inj)

lemma applyTemplateSource_shaped:
  "docShaped t \<Longrightarrow> docShaped (applyTemplateSource t up)"
  unfolding applyTemplateSource_def
  by (auto simp: docShaped_def getProp_setProp split: option.splits)

lemma applyTemplateCreated_shaped:
  "docShaped t \<Longrightarrow> docShaped (applyTemplateCreated t now)"
  unfolding applyTemplateCreated_def
  by (auto simp: docShaped_def getProp_setProp split: option.splits)

lemma loadTemplateBase_shaped:
  assumes "case loadExisting tpl of None \<Rightarrow> True | Some t \<Rightarrow> docShaped t"
  shows "\<exists>base. loadTemplateBase tpl now r up = Inr base \<and> docShaped base"
proof -
  define t where "t = (case loadExisting tpl of None \<Rightarrow> fallbackTemplate now r up | Some t \<Rightarrow> t)"
  have st: "docShaped t" using assms by (auto simp: t_def fallback_shaped split: option.splits)
  then have nn: "t \<noteq> JNull" by (auto simp: docShaped_def)
  have ne: "js ''regionId'' \<noteq> js ''meta''" by (simp add: js_inj)
  show ?thesis
    unfolding loadTemplateBase_def t_def[symmetric] Let_def using nn
    by (simp add: applyTemplateCreated_shaped applyTemplateSource_shaped docShaped_setProp[OF st ne])
qed


lemma updateStatusOnError_shaped:
  assumes "case (if truthyOpt ex then ex else None) of
             Some prior \<Rightarrow> docShaped prior
           | None \<Rightarrow> (case loadExisting tpl of None \<Rightarrow> True | Some t \<Rightarrow> docShaped t)"
  shows "\<exists>doc. updateStatusOnError tpl nowAt k ex r up code msg = Inr doc \<and> docShaped doc \<and>
           statusField (js ''status'') doc = Some (JStr (js ''error'')) \<and>
           statusField (js ''ok'') doc = Some (JBool False) \<and>
           statusField (js ''code'') doc = Some (JNum (Finite code)) \<and>
           statusField (js ''message'') doc = Some (JStr msg)"
proof -
  have st: "\<exists>doc. markError base (nowAt k) up code msg = Inr doc \<and> docShaped doc \<and>
           statusField (js ''status'') doc = Some (JStr (js ''error'')) \<and>
           statusField (js ''ok'') doc = Some (JBool False) \<and>
           statusField (js ''code'') doc = Some (JNum (Finite code)) \<and>
           statusField (js ''message'') doc = Some (JStr msg)" if "docShaped base" for base
  proof -
    from markError_shaped[OF that, of "nowAt k" up code msg] obtain doc where
      d: "markError base (nowAt k) up code msg = Inr doc" "docShaped doc"
         "getProp doc (js ''lastUpdateStatus'')
            = Some (errorStatus code msg (nowAt k) (numAdd (attemptOf base) (Finite 1)))"
      by blast
    have "statusField (js ''status'') doc = Some (JStr (js ''error''))"
      "statusField (js ''ok'') doc = Some (JBool False)"
      "statusField (js ''code'') doc = Some (JNum (Finite code))"
      "statusField (js ''message'') doc = Some (JStr msg)"
      unfolding statusField_def d(3) by (simp_all add: getPropOpt_def errorStatus_def js_inj)
    with d(1,2) show ?thesis by blast
  qed
  show ?thesis
  proof (cases "if truthyOpt ex then ex else None")
    case (Some prior)
    with assms have "docShaped prior" by simp
    from st[OF this] Some show ?thesis
      unfolding updateStatusOnError_def by auto
  next
    case None
    with assms have "case loadExisting tpl of None \<Rightarrow> True | Some t \<Rightarrow> docShaped t" by simp
    from loadTemplateBase_shaped[OF this, of "nowAt (k + 1)" r up] obtain base where
      b: "loadTemplateBase tpl (nowAt (k + 1)) r up = Inr base" "docShaped base" by blast
    from st[OF b(2)] None b(1) show ?thesis
      unfolding updateStatusOnError_def by auto
  qed
qed

lemma run_exit_zero: "validArgs argv \<Longrightarrow> exitCode (run e argv) = 0"
  unfolding run_def validArgs_def mainBody_def failWith_def
  by (auto simp: Let_def split: sum.splits option.splits prod.splits)

lemma run_stage_fails:
  assumes "validArgs argv" "stageFails e" "baselineShaped e"
  shows "\<exists>doc. run e argv = \<lparr>exitCode = 0, written = Some doc\<rparr> \<and> docShaped doc \<and>
           statusField (js ''status'') doc = Some (JStr (js ''error'')) \<and>
           statusField (js ''ok'') doc = Some (JBool False) \<and>
           statusField (js ''code'') doc
             = Some (JNum (Finite (if inputFile e = None then 404 else 422)))"
proof -
  let ?a = "parseArgs argv"
  let ?r = "valueOrEmpty (region ?a)" and ?p = "valueOrEmpty (inputPath ?a)" and ?up = "upstreamOf ?a"
  define code :: rat where "code = (if inputFile e = None then 404 else 422)"
  have "\<exists>msg. mainBody e ?r ?p ?up = failWith e 0 ?r ?up code msg"
    using assms(2) unfolding stageFails_def mainBody_def code_def
    by (auto split: option.splits sum.splits)
  then obtain msg where mb: "mainBody e ?r ?p ?up = failWith e 0 ?r ?up code msg"
    by blast
  from updateStatusOnError_shaped[OF assms(3)[unfolded baselineShaped_def],
      of "isoNow e" 0 ?r ?up code msg]
  obtain doc where d:
    "updateStatusOnError (templateFile e) (isoNow e) 0 (loadExisting (outputFile e)) ?r ?up
       code msg = Inr doc" "docShaped doc"
    "statusField (js ''status'') doc = Some (JStr (js ''error''))"
    "statusField (js ''ok'') doc = Some (JBool False)"
    "statusField (js ''code'') doc = Some (JNum (Finite code))"
    by blast
  have "run e argv = \<lparr>exitCode = 0, written = Some doc\<rparr>"
    using assms(1) by (simp add: run_def validArgs_def Let_def mb failWith_def d(1))
  with d show ?thesis unfolding code_def by blast
qed

lemma run_crashes:
  assumes "validArgs argv" "crashes e" "baselineShaped e"
  shows "\<exists>doc thrown. run e argv = \<lparr>exitCode = 0, written = Some doc\<rparr> \<and> docShaped doc \<and>
           statusField (js ''status'') doc = Some (JStr (js ''error'')) \<and>
           statusField (js ''ok'') doc = Some (JBool False) \<and>
           statusField (js ''code'') doc = Some (JNum (Finite 500)) \<and>
           statusField (js ''message'') doc
             = Some (JStr (js ''parse_fact crashed: '' @ errorMessage thrown))"
proof -
  let ?a = "parseArgs argv"
  let ?r = "valueOrEmpty (region ?a)" and ?p = "valueOrEmpty (inputPath ?a)" and ?up = "upstreamOf ?a"
  from assms(2) obtain pvv where "parsedValue e = Some pvv"
    unfolding crashes_def by (cases "parsedValue e") auto
  then obtain blob val where pv: "parsedValue e = Some (blob, val)" by (cases pvv) auto
  from assms(2) pv obtain thrown where sd: "storedData (zoneData e) val = Inl thrown"
    unfolding crashes_def by (cases "storedData (zoneData e) val") auto
  have mb: "mainBody e ?r ?p ?up = Inl (thrown, 2)"
    by (simp add: mainBody_parsed[OF pv] normalize_def sd)
  from updateStatusOnError_shaped[OF assms(3)[unfolded baselineShaped_def],
      of "isoNow e" 2 ?r ?up 500 "js ''parse_fact crashed: '' @ errorMessage thrown"]
  obtain doc where d:
    "updateStatusOnError (templateFile e) (isoNow e) 2 (loadExisting (outputFile e)) ?r ?up
       500 (js ''parse_fact crashed: '' @ errorMessage thrown) = Inr doc" "docShaped doc"
    "statusField (js ''status'') doc = Some (JStr (js ''error''))"
    "statusField (js ''ok'') doc = Some (JBool False)"
    "statusField (js ''code'') doc = Some (JNum (Finite 500))"
    "statusField (js ''message'') doc = Some (JStr (js ''parse_fact crashed: '' @ errorMessage thrown))"
    by blast
  have "run e argv = \<lparr>exitCode = 0, written = Some doc\<rparr>"
    using assms(1) by (simp add: run_def validArgs_def Let_def mb d(1))
  with d show ?thesis by blast
qed

lemma run_writes_parsed:
  assumes "validArgs argv" "parsesInput e"
  shows "\<exists>doc. run e argv = \<lparr>exitCode = 0, written = Some doc\<rparr> \<and> hasMeta doc \<and>
           statusField (js ''status'') doc = Some (JStr (js ''parsed'')) \<and>
           statusField (js ''code'') doc = Some (JNum (Finite 200))"
proof -
  from assms(2) obtain pvv where "parsedValue e = Some pvv"
    unfolding parsesInput_def by (cases "parsedValue e") auto
  then obtain blob val where pv: "parsedValue e = Some (blob, val)" by (cases pvv) auto
  from assms(2) pv obtain stored where sd0: "storedData (zoneData e) val = Inr stored"
    unfolding parsesInput_def by (cases "storedData (zoneData e) val") auto
  obtain d rsn f where "stored = (d, rsn, f)" by (cases stored) auto
  with sd0 have sd: "storedData (zoneData e) val = Inr (d, rsn, f)" by simp
  show ?thesis
    unfolding run_parsed[OF assms(1) pv sd]
    by (simp add: mergeParsed_props(1,3)[OF fresh_hasMeta] parsedStatus_def js_inj)
qed

lemma run_trichotomy: "stageFails e \<or> crashes e \<or> parsesInput e"
  unfolding stageFails_iff crashes_def parsesInput_def
  by (auto split: option.splits sum.splits)

lemma markError_created:
  assumes "created base" "markError base now up code msg = Inr doc"
  shows "created doc \<and> metaField (js ''fileCreated'') doc = metaField (js ''fileCreated'') base"
proof -
  have sh: "docShaped base" using assms(1) by (simp add: created_def hasMeta_docShaped)
  from markError_shaped[OF sh, of now up code msg] assms(2)
  have d: "docShaped doc"
    "truthyOpt (metaField (js ''fileCreated'') base) \<longrightarrow>
        metaField (js ''fileCreated'') doc = metaField (js ''fileCreated'') base"
    by auto
  with assms(1) have fc: "metaField (js ''fileCreated'') doc = metaField (js ''fileCreated'') base"
    by (simp add: created_def)
  then have t: "truthyOpt (metaField (js ''fileCreated'') doc)" using assms(1) by (simp add: created_def)
  then have "getProp doc (js ''meta'') \<noteq> None"
    by (auto simp: metaField_def getPropOpt_def truthyOpt_def split: option.splits)
  with d(1) have "hasMeta doc" by (auto simp: docShaped_def hasMeta_def)
  with t fc show ?thesis by (simp add: created_def)
qed

lemma run_error_prior:
  assumes "validArgs argv" "\<not> parsesInput e"
    "loadExisting (outputFile e) = Some prior" "docShaped prior"
  shows "\<exists>doc k code msg. run e argv = \<lparr>exitCode = 0, written = Some doc\<rparr> \<and>
           markError prior (isoNow e k) (upstreamOf (parseArgs argv)) code msg = Inr doc"
proof -
  let ?a = "parseArgs argv"
  let ?r = "valueOrEmpty (region ?a)" and ?p = "valueOrEmpty (inputPath ?a)" and ?up = "upstreamOf ?a"
  have tr: "truthyOpt (Some prior)"
    using assms(4) by (simp add: truthyOpt_def docShaped_def truthy_isObject)
  from run_trichotomy[of e] assms(2) consider (fails) "stageFails e" | (crash) "crashes e" by blast
  then show ?thesis
  proof cases
    case fails
    from stageFails_mainBody[OF fails, of ?r ?p ?up] obtain code msg where
      mb: "mainBody e ?r ?p ?up = failWith e 0 ?r ?up code msg" by blast
    from failWith_prior[OF assms(3,4), of 0 ?r ?up code msg] obtain doc where
      fw: "failWith e 0 ?r ?up code msg = Inr \<lparr>exitCode = 0, written = Some doc\<rparr>"
      and me: "markError prior (isoNow e 0) ?up code msg = Inr doc" by blast
    have "run e argv = \<lparr>exitCode = 0, written = Some doc\<rparr>"
      using assms(1) by (simp add: run_def validArgs_def Let_def mb fw)
    with me show ?thesis by blast
  next
    case crash
    then obtain pvv where "parsedValue e = Some pvv"
      unfolding crashes_def by (cases "parsedValue e") auto
    then obtain blob val where pv: "parsedValue e = Some (blob, val)" by (cases pvv) auto
    from crash pv obtain thrown where sd: "storedData (zoneData e) val = Inl thrown"
      unfolding crashes_def by (cases "storedData (zoneData e) val") auto
    have mb: "mainBody e ?r ?p ?up = Inl (thrown, 2)"
      by (simp add: mainBody_parsed[OF pv] normalize_def sd)
    from markError_shaped[OF assms(4), of "isoNow e 2" ?up 500
        "js ''parse_fact crashed: '' @ errorMessage thrown"] obtain doc where
      me: "markError prior (isoNow e 2) ?up 500 (js ''parse_fact crashed: '' @ errorMessage thrown)
             = Inr doc" by blast
    have "run e argv = \<lparr>exitCode = 0, written = Some doc\<rparr>"
      using assms(1) tr
      by (simp add: run_def validArgs_def Let_def mb updateStatusOnError_def assms(3) me)
    with me show ?thesis by blast
  qed
qed

lemma run_keeps_created:
  assumes "validArgs argv" "loadExisting (outputFile e) = Some prior" "created prior"
  shows "\<exists>doc. written (run e argv) = Some doc \<and> created doc \<and>
           metaField (js ''fileCreated'') doc = metaField (js ''fileCreated'') prior"
proof (cases "parsesInput e")
  case False
  have sh: "docShaped prior" using assms(3) by (simp add: created_def hasMeta_docShaped)
  from run_error_prior[OF assms(1) False assms(2) sh] obtain doc k code msg where
    r: "run e argv = \<lparr>exitCode = 0, written = Some doc\<rparr>"
    and me: "markError prior (isoNow e k) (upstreamOf (parseArgs argv)) code msg = Inr doc"
    by blast
  from markError_created[OF assms(3) me] r show ?thesis by simp
next
  case True
  then obtain pvv where "parsedValue e = Some pvv"
    unfolding parsesInput_def by (cases "parsedValue e") auto
  then obtain blob val where pv: "parsedValue e = Some (blob, val)" by (cases pvv) auto
  from True pv obtain stored where sd0: "storedData (zoneData e) val = Inr stored"
    unfolding parsesInput_def by (cases "storedData (zoneData e) val") auto
  obtain d rsn f where "stored = (d, rsn, f)" by (cases stored) auto
  with sd0 have sd: "storedData (zoneData e) val = Inr (d, rsn, f)" by simp
  let ?out = "freshDocument (isoNow e 1) (valueOrEmpty (region (parseArgs argv)))
                (upstreamOf (parseArgs argv)) d rsn f"
  let ?doc = "mergeParsed e (isoNow e 0) blob ?out"
  have w: "written (run e argv) = Some ?doc" by (simp add: run_parsed[OF assms(1) pv sd])
  have hm: "hasMeta prior" and tf: "truthyOpt (metaField (js ''fileCreated'') prior)"
    using assms(3) by (simp_all add: created_def)
  have t1: "truthyOpt (Some prior)" using hm by (simp add: truthyOpt_def hasMeta_def truthy_isObject)
  have tm: "truthyOpt (getPropOpt (Some prior) (js ''meta''))"
    using hm by (auto simp: truthyOpt_def hasMeta_def getPropOpt_def truthy_isObject split: option.splits)
  have m: "getPropOpt (getPropOpt (Some prior) (js ''meta'')) (js ''fileCreated'')
             = metaField (js ''fileCreated'') prior"
    by (simp add: metaField_def getPropOpt_def)
  have "metaField (js ''fileCreated'') ?doc =
          Some (valueOrNull (orElse (metaField (js ''fileCreated'') prior)
                  (metaField (js ''fileCreated'') ?out)))"
    unfolding mergeParsed_props(5)[OF fresh_hasMeta] assms(2) m using t1 tm by simp
  also have "\<dots> = metaField (js ''fileCreated'') prior"
    using tf by (cases "metaField (js ''fileCreated'') prior")
      (simp_all add: orElse_def valueOrNull_def truthyOpt_def)
  finally have fc: "metaField (js ''fileCreated'') ?doc = metaField (js ''fileCreated'') prior" .
  have "hasMeta ?doc" by (rule mergeParsed_props(1)[OF fresh_hasMeta])
  with fc tf have "created ?doc" by (simp add: created_def)
  with w fc show ?thesis by blast
qed

lemma run_creates:
  assumes "validArgs argv" "parsesInput e" "loadExisting (outputFile e) = None"
  shows "\<exists>doc. written (run e argv) = Some doc \<and> created doc \<and>
           metaField (js ''fileCreated'') doc = Some (JStr (isoNow e 1))"
proof -
  from assms(2) obtain pvv where "parsedValue e = Some pvv"
    unfolding parsesInput_def by (cases "parsedValue e") auto
  then obtain blob val where pv: "parsedValue e = Some (blob, val)" by (cases pvv) auto
  from assms(2) pv obtain stored where sd0: "storedData (zoneData e) val = Inr stored"
    unfolding parsesInput_def by (cases "storedData (zoneData e) val") auto
  obtain d rsn f where "stored = (d, rsn, f)" by (cases stored) auto
  with sd0 have sd: "storedData (zoneData e) val = Inr (d, rsn, f)" by simp
  let ?out = "freshDocument (isoNow e 1) (valueOrEmpty (region (parseArgs argv)))
                (upstreamOf (parseArgs argv)) d rsn f"
  let ?doc = "mergeParsed e (isoNow e 0) blob ?out"
  have w: "written (run e argv) = Some ?doc" by (simp add: run_parsed[OF assms(1) pv sd])
  have fc: "metaField (js ''fileCreated'') ?doc = Some (JStr (isoNow e 1))"
    unfolding mergeParsed_props(5)[OF fresh_hasMeta] assms(3)
    by (simp add: truthyOpt_def fresh_fields)
  have "hasMeta ?doc" by (rule mergeParsed_props(1)[OF fresh_hasMeta])
  with fc have "created ?doc" by (simp add: created_def truthyOpt_def isoNow_nonempty)
  with w fc show ?thesis by blast
qed

lemma replay_created:
  "created d0 \<Longrightarrow> linked d0 runs \<Longrightarrow>
     length (replay d0 runs) = length runs \<and>
     (\<forall>doc \<in> set (replay d0 runs).
        created doc \<and> metaField (js ''fileCreated'') doc = metaField (js ''fileCreated'') d0)"
proof (induction runs arbitrary: d0)
  case Nil
  then show ?case by simp
next
  case (Cons r rest)
  obtain e argv where r: "r = (e, argv)" by (cases r) auto
  from Cons.prems(2) have va: "validArgs argv" and le: "loadExisting (outputFile e) = Some d0"
    by (simp_all add: r)
  from run_keeps_created[OF va le Cons.prems(1)] obtain doc where
    d: "written (run e argv) = Some doc" "created doc"
       "metaField (js ''fileCreated'') doc = metaField (js ''fileCreated'') d0"
    by blast
  from Cons.prems(2) have "linked doc rest" by (simp add: r d(1))
  from Cons.IH[OF d(2) this] d show ?case by (simp add: r)
qed

lemma run_depends_on_prior:
  "loadExisting out1 = loadExisting out2 \<Longrightarrow>
     run (e\<lparr>outputFile := out1\<rparr>) argv = run (e\<lparr>outputFile := out2\<rparr>) argv"
proof -
  assume a: "loadExisting out1 = loadExisting out2"
  have i: "isoNow (e\<lparr>outputFile := x\<rparr>) = isoNow e" for x
    by (simp add: fun_eq_iff isoNow_def)
  have f: "failWith (e\<lparr>outputFile := out1\<rparr>) = failWith (e\<lparr>outputFile := out2\<rparr>)"
    by (simp add: fun_eq_iff failWith_def i a)
  have m: "mergeParsed (e\<lparr>outputFile := out1\<rparr>) = mergeParsed (e\<lparr>outputFile := out2\<rparr>)"
    by (simp add: fun_eq_iff mergeParsed_def a)
  have h: "hostEval (e\<lparr>outputFile := x\<rparr>) = hostEval e"
    "zoneData (e\<lparr>outputFile := x\<rparr>) = zoneData e"
    "inputFile (e\<lparr>outputFile := x\<rparr>) = inputFile e"
    "templateFile (e\<lparr>outputFile := x\<rparr>) = templateFile e"
    "outputFile (e\<lparr>outputFile := x\<rparr>) = x" for x
    by simp_all
  have b: "mainBody (e\<lparr>outputFile := out1\<rparr>) = mainBody (e\<lparr>outputFile := out2\<rparr>)"
    unfolding fun_eq_iff mainBody_def f m i h by simp
  show ?thesis
    unfolding run_def b i h a by simp
qed

lemma fallback_base:
  "\<exists>base. loadTemplateBase None now r up = Inr base \<and> docShaped base \<and>
     attemptOf base = Finite 0 \<and> metaField (js ''fileCreated'') base = Some (JStr now) \<and>
     field (js ''data'') base = Some (JArr [])"
proof -
  define t where "t = fallbackTemplate now r up"
  define t1 where "t1 = setProp t (js ''regionId'')
     (valueOrNull (orElse (orElse (strOpt r) (getProp t (js ''regionId''))) (Some JNull)))"
  define t2 where "t2 = applyTemplateSource t1 up"
  define t3 where "t3 = applyTemplateCreated t2 now"
  have ne: "js ''regionId'' \<noteq> js ''meta''" "js ''data'' \<noteq> js ''meta''"
    "js ''data'' \<noteq> js ''regionId''" "js ''lastUpdateStatus'' \<noteq> js ''meta''"
    "js ''lastUpdateStatus'' \<noteq> js ''regionId''" "js ''meta'' \<noteq> js ''regionId''"
    "js ''fileCreated'' \<noteq> js ''source''"
    by (simp_all add: js_inj)
  have st: "docShaped t" unfolding t_def by (rule fallback_shaped)
  have ot: "isObject t" using st by (simp add: docShaped_def)
  have s1: "docShaped t1" unfolding t1_def by (rule docShaped_setProp[OF st ne(1)])
  have s2: "docShaped t2" unfolding t2_def by (rule applyTemplateSource_shaped[OF s1])
  have s3: "docShaped t3" unfolding t3_def by (rule applyTemplateCreated_shaped[OF s2])
  have lb: "loadTemplateBase None now r up = Inr t3"
    unfolding loadTemplateBase_def t3_def t2_def t1_def t_def
    by (simp add: loadExisting_def Let_def fallbackTemplate_def)
  have g1: "getProp t1 k = getProp t k" if "k \<noteq> js ''regionId''" for k
    unfolding t1_def using ot that by (simp add: getProp_setProp)
  have o1: "isObject t1" using s1 by (simp add: docShaped_def)
  have g2: "getProp t2 k = getProp t1 k" if "k \<noteq> js ''meta''" for k
    unfolding t2_def applyTemplateSource_def using o1 that
    by (auto simp: getProp_setProp split: option.splits)
  have o2: "isObject t2" using s2 by (simp add: docShaped_def)
  have g3: "getProp t3 k = getProp t2 k" if "k \<noteq> js ''meta''" for k
    unfolding t3_def applyTemplateCreated_def using o2 that
    by (auto simp: getProp_setProp split: option.splits)
  have tm: "getProp t (js ''meta'') \<noteq> None" "metaField (js ''fileCreated'') t = Some (JStr now)"
    "getProp t (js ''data'') = Some (JArr [])"
    "getPropOpt (getProp t (js ''lastUpdateStatus'')) (js ''attempt'') = Some (JNum (Finite 0))"
    unfolding t_def by (simp_all add: fallbackTemplate_def metaField_def getPropOpt_def js_inj)
  have m2: "metaField (js ''fileCreated'') t2 = Some (JStr now)"
  proof -
    have "metaField (js ''fileCreated'') t1 = Some (JStr now)"
      using tm(2) ne by (simp add: metaField_def g1)
    then show ?thesis
      unfolding t2_def applyTemplateSource_def using o1 s1 ne(7)
      by (auto simp: metaField_def getPropOpt_def getProp_setProp docShaped_def
          split: option.splits)
  qed
  have m3: "metaField (js ''fileCreated'') t3 = Some (JStr now)"
    using m2 unfolding t3_def applyTemplateCreated_def using o2 s2
    by (auto simp: metaField_def getPropOpt_def getProp_setProp docShaped_def
        split: option.splits)
  have d3: "field (js ''data'') t3 = Some (JArr [])"
    using tm(3) ne by (simp add: field_def g3 g2 g1)
  have a3: "attemptOf t3 = Finite 0"
    using tm(4) ne by (simp add: attemptOf_def statusField_def g3 g2 g1)
  show ?thesis using lb s3 a3 m3 d3 by blast
qed

lemma run_fails_fresh:
  assumes "validArgs argv" "stageFails e" "loadExisting (outputFile e) = None"
    "templateFile e = None"
  shows "\<exists>doc. written (run e argv) = Some doc \<and>
           statusField (js ''attempt'') doc = Some (JNum (Finite 1)) \<and>
           metaField (js ''fileCreated'') doc = Some (JStr (isoNow e 1)) \<and>
           field (js ''data'') doc = Some (JArr [])"
proof -
  let ?a = "parseArgs argv"
  let ?r = "valueOrEmpty (region ?a)" and ?p = "valueOrEmpty (inputPath ?a)" and ?up = "upstreamOf ?a"
  from stageFails_mainBody[OF assms(2), of ?r ?p ?up] obtain code msg where
    mb: "mainBody e ?r ?p ?up = failWith e 0 ?r ?up code msg" by blast
  from fallback_base[of "isoNow e 1" ?r ?up] obtain base where
    b: "loadTemplateBase None (isoNow e 1) ?r ?up = Inr base" "docShaped base"
       "attemptOf base = Finite 0" "metaField (js ''fileCreated'') base = Some (JStr (isoNow e 1))"
       "field (js ''data'') base = Some (JArr [])"
    by blast
  from markError_shaped[OF b(2), of "isoNow e 0" ?up code msg] obtain doc where
    d: "markError base (isoNow e 0) ?up code msg = Inr doc"
       "getProp doc (js ''lastUpdateStatus'')
          = Some (errorStatus code msg (isoNow e 0) (numAdd (attemptOf base) (Finite 1)))"
       "\<forall>k. k \<noteq> js ''lastUpdateStatus'' \<and> k \<noteq> js ''meta'' \<longrightarrow> getProp doc k = getProp base k"
       "truthyOpt (metaField (js ''fileCreated'') base) \<longrightarrow>
          metaField (js ''fileCreated'') doc = metaField (js ''fileCreated'') base"
    by blast
  have uso: "updateStatusOnError (templateFile e) (isoNow e) 0 (loadExisting (outputFile e))
               ?r ?up code msg = Inr doc"
    unfolding updateStatusOnError_def assms(3,4) using b(1) d(1) by (simp add: truthyOpt_def)
  have r: "written (run e argv) = Some doc"
    using assms(1) by (simp add: run_def validArgs_def Let_def mb failWith_def uso)
  have at: "statusField (js ''attempt'') doc = Some (JNum (Finite 1))"
    unfolding statusField_def d(2) b(3)
    by (simp add: getPropOpt_def errorStatus_def js_inj roundDouble_one)
  have fc: "metaField (js ''fileCreated'') doc = Some (JStr (isoNow e 1))"
    using d(4) b(4) by (simp add: truthyOpt_def isoNow_nonempty)
  have da: "field (js ''data'') doc = Some (JArr [])"
    using d(3) b(5) by (simp add: field_def js_inj)
  show ?thesis using r at fc da by blast
qed

lemma run_parses_fresh:
  assumes "validArgs argv" "parsesInput e" "loadExisting (outputFile e) = None"
  shows "\<exists>doc. written (run e argv) = Some doc \<and>
           statusField (js ''attempt'') doc = Some (JNum (Finite 1)) \<and>
           metaField (js ''fileCreated'') doc = Some (JStr (isoNow e 1))"
proof -
  from assms(2) obtain pvv where "parsedValue e = Some pvv"
    unfolding parsesInput_def by (cases "parsedValue e") auto
  then obtain blob val where pv: "parsedValue e = Some (blob, val)" by (cases pvv) auto
  from assms(2) pv obtain stored where sd0: "storedData (zoneData e) val = Inr stored"
    unfolding parsesInput_def by (cases "storedData (zoneData e) val") auto
  obtain d rsn f where "stored = (d, rsn, f)" by (cases stored) auto
  with sd0 have sd: "storedData (zoneData e) val = Inr (d, rsn, f)" by simp
  let ?out = "freshDocument (isoNow e 1) (valueOrEmpty (region (parseArgs argv)))
                (upstreamOf (parseArgs argv)) d rsn f"
  let ?doc = "mergeParsed e (isoNow e 0) blob ?out"
  have w: "written (run e argv) = Some ?doc" by (simp add: run_parsed[OF assms(1) pv sd])
  have fc: "metaField (js ''fileCreated'') ?doc = Some (JStr (isoNow e 1))"
    unfolding mergeParsed_props(5)[OF fresh_hasMeta] assms(3)
    by (simp add: truthyOpt_def fresh_fields)
  have at: "statusField (js ''attempt'') ?doc = Some (JNum (Finite 1))"
    unfolding mergeParsed_props(3)[OF fresh_hasMeta] assms(3)
    by (simp add: truthyOpt_def prevAttempt_def getPropOpt_def parsedStatus_def js_inj
        roundDouble_one)
  show ?thesis using w fc at by blast
qed

lemma mergeParsed_meta:
  fixes e :: env and now blob :: jstring and out :: jsval
  assumes "hasMeta out"
  shows "k \<noteq> js ''fileCreated'' \<Longrightarrow> k \<noteq> js ''contentHash'' \<Longrightarrow> k \<noteq> js ''dataEmpty'' \<Longrightarrow>
           k \<noteq> js ''dataEmptyReason'' \<Longrightarrow>
           metaField k (mergeParsed e now blob out) = metaField k out"
    and "truthyOpt (metaField (js ''dataEmptyReason'') out) \<Longrightarrow>
           metaField (js ''dataEmptyReason'') (mergeParsed e now blob out)
             = metaField (js ''dataEmptyReason'') out"
proof -
  define ex where "ex = loadExisting (outputFile e)"
  define d1 where "d1 = keepCreated ex out"
  define d2 where "d2 = setProp d1 (js ''lastUpdateStatus'')
     (parsedStatus now (numAdd (prevAttempt (if truthyOpt ex then ex else None)) (Finite 1)))"
  define d3 where "d3 = setMeta d2 (js ''contentHash'') (JStr (sha256 e blob))"
  have doc: "mergeParsed e now blob out = setEmptiness d3"
    unfolding mergeParsed_def d3_def d2_def d1_def ex_def by (simp add: Let_def)
  have ne: "js ''lastUpdateStatus'' \<noteq> js ''meta''" "js ''dataEmptyReason'' \<noteq> js ''contentHash''"
    "js ''dataEmptyReason'' \<noteq> js ''fileCreated''" "js ''dataEmptyReason'' \<noteq> js ''dataEmpty''"
    by (simp_all add: js_inj)
  have h1: "hasMeta d1" unfolding d1_def by (rule keepCreated_props(1)[OF assms(1)])
  have o1: "isObject d1" using h1 by (simp add: hasMeta_def)
  have h2: "hasMeta d2" unfolding d2_def using h1 ne(1) by (simp add: hasMeta_setProp)
  have h3: "hasMeta d3" unfolding d3_def using h2 by (simp add: hasMeta_setMeta)
  have m3: "metaField k d3 = metaField k out" if "k \<noteq> js ''fileCreated''" "k \<noteq> js ''contentHash''" for k
    using that h2 o1 ne(1) assms(1)
    by (simp add: d3_def metaField_setMeta d2_def metaField_setProp d1_def keepCreated_props(4))
  show "metaField k (mergeParsed e now blob out) = metaField k out"
    if "k \<noteq> js ''fileCreated''" "k \<noteq> js ''contentHash''" "k \<noteq> js ''dataEmpty''"
       "k \<noteq> js ''dataEmptyReason''"
    using that h3 by (simp add: doc setEmptiness_props(4) m3)
  show "metaField (js ''dataEmptyReason'') (mergeParsed e now blob out)
             = metaField (js ''dataEmptyReason'') out"
    if "truthyOpt (metaField (js ''dataEmptyReason'') out)"
  proof -
    have r3: "metaField (js ''dataEmptyReason'') d3 = metaField (js ''dataEmptyReason'') out"
      using ne by (simp add: m3)
    let ?d4 = "setMeta d3 (js ''dataEmpty'') (JBool (dataIsEmpty (valueOrNull (getProp d3 (js ''data'')))))"
    have r4: "metaField (js ''dataEmptyReason'') ?d4 = metaField (js ''dataEmptyReason'') out"
      using h3 ne by (simp add: metaField_setMeta r3)
    have "getPropOpt (getProp ?d4 (js ''meta'')) (js ''dataEmptyReason'')
            = metaField (js ''dataEmptyReason'') ?d4" by (simp add: metaField_def)
    then show ?thesis
      unfolding doc setEmptiness_def Let_def using that r4 by simp
  qed
qed

lemma js_Nil_iff: "js s = [] \<longleftrightarrow> s = []"
  by (simp add: js_def)

section \<open>Properties of the literal locator\<close>

definition firstAt :: "jstring \<Rightarrow> jstring \<Rightarrow> jstring \<Rightarrow> bool" where
  "firstAt p s pre \<longleftrightarrow> (\<exists>post. s = pre @ p @ post) \<and> (\<forall>pre' post'. s = pre' @ p @ post' \<longrightarrow> length pre \<le> length pre')"

lemma startsWith_iff: "startsWith s p \<longleftrightarrow> (\<exists>t. s = p @ t)"
  by (induction s p rule: startsWith.induct) auto

lemma indexOf_None_iff: "indexOf s p = None \<longleftrightarrow> (\<nexists>pre post. s = pre @ p @ post)"
proof (induction s)
  case Nil
  then show ?case by auto
next
  case (Cons c cs)
  show ?case
  proof (cases "startsWith (c # cs) p")
    case True
    then obtain t where "c # cs = p @ t" by (auto simp: startsWith_iff)
    then have "c # cs = [] @ p @ t" by simp
    then show ?thesis using True by (metis indexOf.simps(2) option.distinct(1))
  next
    case False
    have "(\<exists>pre post. c # cs = pre @ p @ post) \<longleftrightarrow> (\<exists>pre post. cs = pre @ p @ post)"
    proof
      assume "\<exists>pre post. c # cs = pre @ p @ post"
      then obtain pre post where e: "c # cs = pre @ p @ post" by blast
      show "\<exists>pre post. cs = pre @ p @ post"
      proof (cases pre)
        case Nil
        then show ?thesis using e False by (auto simp: startsWith_iff)
      next
        case (Cons a pre')
        then show ?thesis using e by auto
      qed
    next
      assume "\<exists>pre post. cs = pre @ p @ post"
      then obtain pre post where "cs = pre @ p @ post" by blast
      then have "c # cs = (c # pre) @ p @ post" by simp
      then show "\<exists>pre post. c # cs = pre @ p @ post" by blast
    qed
    then show ?thesis using False Cons by simp
  qed
qed

lemma indexOf_first: "firstAt p s pre \<Longrightarrow> indexOf s p = Some (length pre)"
proof (induction s arbitrary: pre)
  case Nil
  then show ?case by (auto simp: firstAt_def)
next
  case (Cons c cs)
  show ?case
  proof (cases "startsWith (c # cs) p")
    case True
    then obtain t where "c # cs = [] @ p @ t" by (auto simp: startsWith_iff)
    with Cons.prems have "length pre \<le> length ([]::jstring)" unfolding firstAt_def by blast
    then show ?thesis using True by simp
  next
    case False
    from Cons.prems obtain post where e: "c # cs = pre @ p @ post" by (auto simp: firstAt_def)
    from False e have "pre \<noteq> []" by (auto simp: startsWith_iff)
    then obtain pre' where p': "pre = c # pre'" using e by (cases pre) auto
    have "firstAt p cs pre'"
      unfolding firstAt_def
    proof (intro conjI allI impI)
      show "\<exists>post. cs = pre' @ p @ post" using e p' by auto
    next
      fix q post' assume "cs = q @ p @ post'"
      then have "c # cs = (c # q) @ p @ post'" by simp
      with Cons.prems have "length pre \<le> length (c # q)" unfolding firstAt_def by blast
      then show "length pre' \<le> length q" using p' by simp
    qed
    then have "indexOf cs p = Some (length pre')" by (rule Cons.IH)
    then show ?thesis using False p' by simp
  qed
qed

lemma braceDepth_Nil [simp]: "braceDepth [] = 0" by (simp add: braceDepth_def)
lemma braceDepth_Cons [simp]:
  "braceDepth (c # cs) = (if c = 123 then 1 else if c = 125 then - 1 else 0) + braceDepth cs"
  by (simp add: braceDepth_def)

lemma scanBraces_Some:
  "1 \<le> d \<Longrightarrow> n \<le> length xs \<Longrightarrow> d + braceDepth (take n xs) = 0 \<Longrightarrow>
   \<forall>m<n. d + braceDepth (take m xs) \<noteq> 0 \<Longrightarrow> scanBraces xs d i = Some (i + n)"
proof (induction xs arbitrary: d i n)
  case Nil
  then show ?case by simp
next
  case (Cons c cs)
  from Cons.prems obtain n' where n: "n = Suc n'" by (cases n) auto
  have step: "\<forall>m<n'. d + braceDepth (take (Suc m) (c # cs)) \<noteq> 0" using Cons.prems(4) n by auto
  show ?case
  proof (cases "c = 125 \<and> d - 1 = 0")
    case True
    have "n' = 0"
    proof (rule ccontr)
      assume "n' \<noteq> 0"
      then have "1 < n" using n by simp
      with Cons.prems(4) have "d + braceDepth (take 1 (c # cs)) \<noteq> 0" by blast
      then show False using True by simp
    qed
    then show ?thesis using True n by simp
  next
    case False
    let ?d' = "d + (if c = 123 then 1 else if c = 125 then - 1 else 0)"
    have d': "1 \<le> ?d'" using False Cons.prems(1) by auto
    have "scanBraces cs ?d' (i + 1) = Some (i + 1 + n')"
    proof (rule Cons.IH[OF d'])
      show "n' \<le> length cs" using Cons.prems(2) n by simp
      show "?d' + braceDepth (take n' cs) = 0" using Cons.prems(3) n by (simp split: if_splits)
      show "\<forall>m<n'. ?d' + braceDepth (take m cs) \<noteq> 0" using step by (auto split: if_splits)
    qed
    then show ?thesis using False n by (auto split: if_splits)
  qed
qed

lemma scanBraces_None:
  "1 \<le> d \<Longrightarrow> \<forall>n\<le>length xs. d + braceDepth (take n xs) \<noteq> 0 \<Longrightarrow> scanBraces xs d i = None"
proof (induction xs arbitrary: d i)
  case Nil
  then show ?case by simp
next
  case (Cons c cs)
  have one: "d + braceDepth (take 1 (c # cs)) \<noteq> 0" using Cons.prems(2) by (metis One_nat_def Suc_leI length_Cons zero_less_Suc)
  let ?d' = "d + (if c = 123 then 1 else if c = 125 then - 1 else 0)"
  have d': "1 \<le> ?d'" using one Cons.prems(1) by (auto split: if_splits)
  have "scanBraces cs ?d' (i + 1) = None"
  proof (rule Cons.IH[OF d'], intro allI impI)
    fix n assume "n \<le> length cs"
    then have "Suc n \<le> length (c # cs)" by simp
    with Cons.prems(2) have "d + braceDepth (take (Suc n) (c # cs)) \<noteq> 0" by blast
    then show "?d' + braceDepth (take n cs) \<noteq> 0" by (auto split: if_splits)
  qed
  then show ?case using one by (auto split: if_splits)
qed

lemma skipSpace_append:
  "list_all isSpace ws \<Longrightarrow> rest = [] \<or> \<not> isSpace (hd rest) \<Longrightarrow> skipSpace (ws @ rest) k = k + length ws"
proof (induction ws arbitrary: k)
  case Nil
  then show ?case by (cases rest) auto
next
  case (Cons w ws)
  then show ?case by simp
qed

lemma marker_nonempty: "marker \<noteq> []" by (simp add: marker_def js_def)

lemma first_occurrence:
  assumes "\<not> sublist p (pre @ butlast p)" "p \<noteq> []"
  shows "firstAt p (pre @ p @ post) pre"
  unfolding firstAt_def
proof (intro conjI allI impI)
  show "\<exists>posta. pre @ p @ post = pre @ p @ posta" by blast
next
  fix pre' post' assume e: "pre @ p @ post = pre' @ p @ post'"
  show "length pre \<le> length pre'"
  proof (rule ccontr)
    assume "\<not> length pre \<le> length pre'"
    then have lt: "length pre' + length p \<le> length pre + length p - 1" by simp
    have "pre @ butlast p = take (length pre + length p - 1) (pre @ p @ post)"
    proof -
      have "0 < length p" using assms(2) by simp
      then have "length pre + length p - 1 = length pre + (length p - 1)" by arith
      then show ?thesis by (simp add: butlast_conv_take)
    qed
    also have "\<dots> = take (length pre + length p - 1) (pre' @ p @ post')" using e by simp
    also have "\<dots> = pre' @ p @ take (length pre + length p - 1 - length pre' - length p) post'"
      using lt by simp
    finally have "sublist p (pre @ butlast p)" unfolding sublist_def by blast
    with assms(1) show False by simp
  qed
qed

text \<open>
  Claim C6.  The locator on every HTML text: without the marker it fails with
  \<open>MarkerNotFound\<close>; with the marker (first occurrence), followed by white space and then
  by the end of the text or by a character other than an opening brace, it fails with
  \<open>UnexpectedToken\<close>; with an opening brace there, it returns exactly the text from that
  brace up to and including the position \<open>n\<close> where the brace depth, every brace counted
  whether quoted or not, is zero for the first time, together with the two offsets; and it
  fails with \<open>UnbalancedBraces\<close> when the depth never comes back to zero.
\<close>

theorem extractFact_contract:
  "((\<not> sublist marker html) \<longrightarrow> extractFact html = Inl MarkerNotFound) \<and>
   (\<forall>pre ws rest. markerSplit html pre ws rest \<and> (rest = [] \<or> hd rest \<noteq> 123) \<longrightarrow>
      extractFact html = Inl UnexpectedToken) \<and>
   (\<forall>pre ws rest n. markerSplit html pre ws rest \<and> rest \<noteq> [] \<and> hd rest = 123 \<and> closesAt rest n \<longrightarrow>
      extractFact html =
        Inr \<lparr>jsonLike = take n rest, startIndex = length (pre @ marker @ ws),
             endIndex = length (pre @ marker @ ws) + n\<rparr>) \<and>
   (\<forall>pre ws rest. markerSplit html pre ws rest \<and> rest \<noteq> [] \<and> hd rest = 123 \<and> (\<nexists>n. closesAt rest n) \<longrightarrow>
      extractFact html = Inl UnbalancedBraces)"
proof (intro conjI allI impI)
  assume "\<not> sublist marker html"
  then have "indexOf html marker = None" by (simp add: indexOf_None_iff sublist_def)
  then show "extractFact html = Inl MarkerNotFound" by (simp add: extractFact_def)
next
  fix pre ws rest
  assume a: "markerSplit html pre ws rest \<and> (rest = [] \<or> hd rest \<noteq> 123)"
  then have h: "html = pre @ marker @ ws @ rest" by (simp add: markerSplit_def)
  from a have idx: "indexOf html marker = Some (length pre)"
    unfolding h using first_occurrence[OF _ marker_nonempty] indexOf_first by (simp add: markerSplit_def)
  from a have sk: "skipSpace (ws @ rest) (length pre + length marker) = length pre + length marker + length ws"
    by (intro skipSpace_append) (auto simp: markerSplit_def split: list.splits)
  have nth: "rest \<noteq> [] \<Longrightarrow> html ! (length pre + length marker + length ws) = hd rest"
    unfolding h by (simp add: nth_append hd_conv_nth)
  have len: "length pre + length marker + length ws < length html \<longleftrightarrow> rest \<noteq> []" unfolding h by simp
  show "extractFact html = Inl UnexpectedToken"
    using a idx sk nth len unfolding extractFact_def by (auto simp: h Let_def)
next
  fix pre ws rest n
  assume a: "markerSplit html pre ws rest \<and> rest \<noteq> [] \<and> hd rest = 123 \<and> closesAt rest n"
  then have h: "html = pre @ marker @ ws @ rest" by (simp add: markerSplit_def)
  from a have idx: "indexOf html marker = Some (length pre)"
    unfolding h using first_occurrence[OF _ marker_nonempty] indexOf_first by (simp add: markerSplit_def)
  from a have sk: "skipSpace (ws @ rest) (length pre + length marker) = length pre + length marker + length ws"
    by (intro skipSpace_append) (auto simp: markerSplit_def split: list.splits)
  let ?i = "length pre + length marker + length ws"
  from a obtain body where r: "rest = 123 # body" by (cases rest) auto
  from a have c: "closesAt rest n" by simp
  then obtain n' where n: "n = Suc n'" by (cases n) (auto simp: closesAt_def)
  have "scanBraces body 1 (?i + 1) = Some (?i + 1 + n')"
  proof (rule scanBraces_Some)
    show "(1::int) \<le> 1" by simp
    show "n' \<le> length body" using c n r by (simp add: closesAt_def)
    show "1 + braceDepth (take n' body) = 0" using c n r by (simp add: closesAt_def)
    show "\<forall>m<n'. 1 + braceDepth (take m body) \<noteq> 0"
    proof (intro allI impI)
      fix m assume "m < n'"
      then have "Suc m \<in> set [1..<n]" using n by auto
      with c have "braceDepth (take (Suc m) rest) \<noteq> 0" by (simp add: closesAt_def list_all_iff)
      then show "1 + braceDepth (take m body) \<noteq> 0" using r by simp
    qed
  qed
  then have sc: "scanBraces (drop ?i html) 0 ?i = Some (?i + n)" unfolding h using r n by simp
  have "slice html ?i (?i + n) = take n rest" unfolding h slice_def by simp
  then show "extractFact html =
        Inr \<lparr>jsonLike = take n rest, startIndex = length (pre @ marker @ ws),
             endIndex = length (pre @ marker @ ws) + n\<rparr>"
    using idx sk sc r unfolding extractFact_def by (simp add: h Let_def nth_append)
next
  fix pre ws rest
  assume a: "markerSplit html pre ws rest \<and> rest \<noteq> [] \<and> hd rest = 123 \<and> (\<nexists>n. closesAt rest n)"
  then have h: "html = pre @ marker @ ws @ rest" by (simp add: markerSplit_def)
  from a have idx: "indexOf html marker = Some (length pre)"
    unfolding h using first_occurrence[OF _ marker_nonempty] indexOf_first by (simp add: markerSplit_def)
  from a have sk: "skipSpace (ws @ rest) (length pre + length marker) = length pre + length marker + length ws"
    by (intro skipSpace_append) (auto simp: markerSplit_def split: list.splits)
  let ?i = "length pre + length marker + length ws"
  from a obtain body where r: "rest = 123 # body" by (cases rest) auto
  have no: "\<forall>n\<le>length body. 1 + braceDepth (take n body) \<noteq> 0"
  proof (rule ccontr)
    assume "\<not> ?thesis"
    then have ex: "\<exists>n. n \<le> length body \<and> 1 + braceDepth (take n body) = 0" by blast
    define k where "k = (LEAST n. n \<le> length body \<and> 1 + braceDepth (take n body) = 0)"
    have k: "k \<le> length body \<and> 1 + braceDepth (take k body) = 0"
      unfolding k_def using ex by (rule LeastI_ex)
    have least: "\<And>m. m < k \<Longrightarrow> \<not> (m \<le> length body \<and> 1 + braceDepth (take m body) = 0)"
      unfolding k_def by (rule not_less_Least)
    have "closesAt rest (Suc k)"
      unfolding closesAt_def list_all_iff
    proof (intro conjI ballI)
      show "0 < Suc k" by simp
      show "Suc k \<le> length rest" using k r by simp
      show "braceDepth (take (Suc k) rest) = 0" using k r by simp
      fix m assume "m \<in> set [1..<Suc k]"
      then have "1 \<le> m \<and> m < Suc k" by (simp only: set_upt atLeastLessThan_iff)
      then obtain m' where m: "m = Suc m'" "m' < k" by (cases m) auto
      with least[of m'] k have "1 + braceDepth (take m' body) \<noteq> 0" by auto
      then show "braceDepth (take m rest) \<noteq> 0" using m r by simp
    qed
    with a show False by blast
  qed
  have "scanBraces body 1 (?i + 1) = None" by (rule scanBraces_None[OF _ no]) simp
  then have sc: "scanBraces (drop ?i html) 0 ?i = None" unfolding h using r by simp
  show "extractFact html = Inl UnbalancedBraces"
    using idx sk sc r unfolding extractFact_def by (simp add: h Let_def nth_append)
qed

theorem extractFact_contract_witness:
  \<open>extractFact (js ''<html>blocked</html>'') = Inl MarkerNotFound \<and>
   extractFact (js ''var DisconSchedule.fact = [1];'') = Inl UnexpectedToken \<and>
   extractFact (js ''a DisconSchedule.fact = {"k":"}"} ;'') =
     Inr \<lparr>jsonLike = js ''{"k":"}'', startIndex = 24, endIndex = 31\<rparr> \<and>
   extractFact (js ''DisconSchedule.fact = {{}'') = Inl UnbalancedBraces\<close>
proof -
  have a: "\<not> sublist marker (js ''<html>blocked</html>'')"
    by (simp add: js_def marker_def sublist_code prefix_code)
  have b: "markerSplit (js ''var DisconSchedule.fact = [1];'') (js ''var '') (js '' '') (js ''[1];'')
      \<and> (js ''[1];'' = [] \<or> hd (js ''[1];'') \<noteq> 123)"
    by (simp add: markerSplit_def js_def marker_def isSpace_def sublist_code prefix_code)
  have c: \<open>markerSplit (js ''a DisconSchedule.fact = {"k":"}"} ;'') (js ''a '') (js '' '')
        (js ''{"k":"}"} ;'')
      \<and> js ''{"k":"}"} ;'' \<noteq> [] \<and> hd (js ''{"k":"}"} ;'') = 123
      \<and> closesAt (js ''{"k":"}"} ;'') 7\<close>
    by (simp add: markerSplit_def closesAt_def js_def marker_def isSpace_def sublist_code
        prefix_code upt_rec)
  have "\<not> closesAt (js ''{{}'') n" for n
  proof
    assume h: "closesAt (js ''{{}'') n"
    then have "n = 1 \<or> n = 2 \<or> n = 3" by (auto simp: closesAt_def js_def)
    with h show False by (auto simp: closesAt_def js_def)
  qed
  then have d: "markerSplit (js ''DisconSchedule.fact = {{}'') [] (js '' '') (js ''{{}'')
      \<and> js ''{{}'' \<noteq> [] \<and> hd (js ''{{}'') = 123 \<and> (\<nexists>n. closesAt (js ''{{}'') n)"
    by (simp add: markerSplit_def js_def marker_def isSpace_def sublist_code prefix_code)
  note t = extractFact_contract
  have 1: "extractFact (js ''<html>blocked</html>'') = Inl MarkerNotFound"
    using t[of "js ''<html>blocked</html>''"] a by blast
  have 2: "extractFact (js ''var DisconSchedule.fact = [1];'') = Inl UnexpectedToken"
    using t[of "js ''var DisconSchedule.fact = [1];''"] b by blast
  have \<open>extractFact (js ''a DisconSchedule.fact = {"k":"}"} ;'') =
      Inr \<lparr>jsonLike = take 7 (js ''{"k":"}"} ;''),
        startIndex = length (js ''a '' @ marker @ js '' ''),
        endIndex = length (js ''a '' @ marker @ js '' '') + 7\<rparr>\<close>
    using t[of \<open>js ''a DisconSchedule.fact = {"k":"}"} ;''\<close>] c by blast
  then have 3: \<open>extractFact (js ''a DisconSchedule.fact = {"k":"}"} ;'') =
     Inr \<lparr>jsonLike = js ''{"k":"}'', startIndex = 24, endIndex = 31\<rparr>\<close>
    by (simp add: js_def marker_def)
  have 4: "extractFact (js ''DisconSchedule.fact = {{}'') = Inl UnbalancedBraces"
    using t[of "js ''DisconSchedule.fact = {{}''"] d by blast
  from 1 2 3 4 show ?thesis by blast
qed

section \<open>Failed attempts keep the prior document\<close>



section \<open>A second run on unchanged input\<close>




section \<open>A fact object without a \<^verbatim>\<open>data\<close> field\<close>

text \<open>
  Claim C7, as amended.  When the parsed value has no own \<^verbatim>\<open>data\<close> field, the written
  document holds the whole parsed value as its \<^verbatim>\<open>data\<close>, unchanged: no key is filtered
  out and no entry is converted.  It records the reason \<^verbatim>\<open>no-data-field-present\<close> and
  sets \<^verbatim>\<open>meta.rawFactIncluded\<close>.
\<close>

theorem whole_value_stored_as_is:
  assumes "validArgs argv" and "parsedValue e = Some (blob, val)" and "ownData val = Inr None"
  shows "\<exists>doc. written (run e argv) = Some doc \<and>
     field (js ''data'') doc = Some val \<and>
     metaField (js ''dataEmptyReason'') doc = Some (JStr (js ''no-data-field-present'')) \<and>
     metaField (js ''rawFactIncluded'') doc = Some (JBool True)"
proof -
  have sd: "storedData (zoneData e) val = Inr (val, JStr (js ''no-data-field-present''), True)"
    by (simp add: storedData_def assms(3))
  let ?out = "freshDocument (isoNow e 1) (valueOrEmpty (region (parseArgs argv)))
                (upstreamOf (parseArgs argv)) val (JStr (js ''no-data-field-present'')) True"
  let ?doc = "mergeParsed e (isoNow e 0) blob ?out"
  have w: "written (run e argv) = Some ?doc" by (simp add: run_parsed[OF assms(1,2) sd])
  have ne: "js ''data'' \<noteq> js ''meta''" "js ''data'' \<noteq> js ''lastUpdateStatus''"
    "js ''rawFactIncluded'' \<noteq> js ''fileCreated''" "js ''rawFactIncluded'' \<noteq> js ''contentHash''"
    "js ''rawFactIncluded'' \<noteq> js ''dataEmpty''" "js ''rawFactIncluded'' \<noteq> js ''dataEmptyReason''"
    by (simp_all add: js_inj)
  have raw: "metaField (js ''rawFactIncluded'') (freshDocument n r up d rsn f) = Some (JBool f)"
    for n r up d rsn f
    by (simp add: metaField_def freshDocument_def js_inj getPropOpt_def)
  have d: "field (js ''data'') ?doc = Some val"
    by (simp add: mergeParsed_props(2)[OF fresh_hasMeta ne(1,2)] fresh_fields)
  have r: "metaField (js ''dataEmptyReason'') ?doc = Some (JStr (js ''no-data-field-present''))"
    by (subst mergeParsed_meta(2)[OF fresh_hasMeta])
       (simp_all add: fresh_fields truthyOpt_def js_Nil_iff)
  have f: "metaField (js ''rawFactIncluded'') ?doc = Some (JBool True)"
    by (simp add: mergeParsed_meta(1)[OF fresh_hasMeta ne(3-6)] raw)
  show ?thesis using w d r f by blast
qed

theorem whole_value_stored_as_is_witness:
  \<open>validArgs kyivArgv \<and>
   parsedValue (testEnv 1743300000000 (Some mixedHtml) None)
     = Some (js ''{"GPV1.1":[{"date":"2025-03-30","start":"2:00","end":"4:00"}],"updated":"29.03.2025"}'',
             mixedValue) \<and>
   ownData mixedValue = Inr None \<and>
   (\<exists>doc. written (run (testEnv 1743300000000 (Some mixedHtml) None) kyivArgv) = Some doc \<and>
      field (js ''data'') doc = Some mixedValue \<and>
      metaField (js ''dataEmptyReason'') doc = Some (JStr (js ''no-data-field-present'')) \<and>
      metaField (js ''rawFactIncluded'') doc = Some (JBool True))\<close>
proof -
  let ?e = "testEnv 1743300000000 (Some mixedHtml) None"
  have a: "validArgs kyivArgv" by (simp add: all_eval cong: eval_cong)
  have b: \<open>parsedValue ?e
     = Some (js ''{"GPV1.1":[{"date":"2025-03-30","start":"2:00","end":"4:00"}],"updated":"29.03.2025"}'',
             mixedValue)\<close>
    by (simp add: all_eval cong: eval_cong)
  have c: "ownData mixedValue = Inr None" by (simp add: all_eval cong: eval_cong)
  from whole_value_stored_as_is[OF a b c] a b c show ?thesis by blast
qed

text \<open>
  Claim C7 as stated asks that the whole value is normalized like a payload: only group
  keys kept, entries converted.  For the fact object with a group and the key
  \<^verbatim>\<open>updated\<close> the normalizer applied to the whole value would yield the group alone, with
  its entry converted; the document holds the value as it was parsed.
\<close>

theorem whole_value_not_normalized_counterexample:
  "\<exists>doc groups.
     written (run (testEnv 1743300000000 (Some mixedHtml) None) kyivArgv) = Some doc \<and>
     field (js ''data'') doc = Some mixedValue \<and>
     extractGroupsWithIso (fixedZone 120) mixedValue = Inr groups \<and>
     groups = JObj [(js ''GPV1.1'',
                JArr [JObj [(js ''date'', JStr (js ''2025-03-30'')),
                            (js ''startLocal'', JStr (js ''2025-03-30T00:00:00+02:00'')),
                            (js ''endLocal'', JStr (js ''2025-03-30T02:00:00+02:00''))]])] \<and>
     field (js ''data'') doc \<noteq> Some groups"
proof -
  have g: "extractGroupsWithIso (fixedZone 120) mixedValue =
     Inr (JObj [(js ''GPV1.1'',
                JArr [JObj [(js ''date'', JStr (js ''2025-03-30'')),
                            (js ''startLocal'', JStr (js ''2025-03-30T00:00:00+02:00'')),
                            (js ''endLocal'', JStr (js ''2025-03-30T02:00:00+02:00''))]])])"
    by (simp add: all_eval numstr_eval cong: eval_cong)
  have d: "case written (run (testEnv 1743300000000 (Some mixedHtml) None) kyivArgv) of
             None \<Rightarrow> False | Some doc \<Rightarrow> field (js ''data'') doc = Some mixedValue"
    by (simp add: all_eval cong: eval_cong)
  then obtain doc where doc:
    "written (run (testEnv 1743300000000 (Some mixedHtml) None) kyivArgv) = Some doc"
    "field (js ''data'') doc = Some mixedValue"
    by (cases "written (run (testEnv 1743300000000 (Some mixedHtml) None) kyivArgv)") auto
  have "mixedValue \<noteq> JObj [(js ''GPV1.1'',
                JArr [JObj [(js ''date'', JStr (js ''2025-03-30'')),
                            (js ''startLocal'', JStr (js ''2025-03-30T00:00:00+02:00'')),
                            (js ''endLocal'', JStr (js ''2025-03-30T02:00:00+02:00''))]])]"
    by (simp add: mixedValue_def)
  with doc g show ?thesis by simp
qed

end
